theory Spec2Isabelle
  imports Main "HOL-Library.Word"
begin

section \<open>Go values shared by the engine\<close>

text \<open>
  Go strings and byte slices are sequences of bytes; both are modelled by \<open>string\<close>
  (a list of 8-bit characters). An \<open>error\<close> value is either the package variable
  \<open>ErrInvalidPassword\<close> (idp/password.go) or a value made by \<open>errors.New\<close> or
  \<open>fmt.Errorf\<close> with its message. \<open>Panic\<close> is not a Go error value: it stands for a
  run-time panic (a failed type assertion, a nil pointer dereference) that unwinds the
  calling function.
\<close>

datatype error =
    ErrInvalidPassword
  | errors_New string
  | Panic string

fun Error :: "error \<Rightarrow> string" where
  "Error ErrInvalidPassword = ''invalid login or password''"
| "Error (errors_New msg) = msg"
| "Error (Panic msg) = msg"

text \<open>
  \<open>strings.Split(s, sep)\<close> for a one-byte separator: the pieces of \<open>s\<close> between the
  occurrences of the separator, \<open>[s]\<close> when there is none (so one empty piece for the
  empty string). \<open>strings.Join(elems, sep)\<close> puts the separator between the elements.
\<close>

fun strings_Split :: "string \<Rightarrow> char \<Rightarrow> string list" where
  "strings_Split [] c = [[]]"
| "strings_Split (x # xs) c =
     (if x = c then [] # strings_Split xs c
      else (case strings_Split xs c of
              [] \<Rightarrow> [[x]]
            | w # ws \<Rightarrow> (x # w) # ws))"

fun strings_Join :: "string list \<Rightarrow> string \<Rightarrow> string" where
  "strings_Join [] sep = []"
| "strings_Join [x] sep = x"
| "strings_Join (x # y # zs) sep = x @ sep @ strings_Join (y # zs) sep"

section \<open>Service provider metadata (idp/sp.go)\<close>

text \<open>
  The field \<open>publicKey interface{}\<close> of a service provider holds whatever
  \<open>x509.ParseCertificate\<close> put into \<open>cert.PublicKey\<close>: an RSA, DSA, ECDSA or Ed25519
  key, or nil (before parsing, and for a key algorithm the library does not know).
  The key material itself is opaque here.
\<close>

datatype publicKey =
    rsa_PublicKey string
  | dsa_PublicKey string
  | ecdsa_PublicKey string
  | ed25519_PublicKey string
  | nil_PublicKey

record AssertionConsumerService =
  Index :: "32 word"
  IsDefault :: bool
  Binding :: string
  Location :: string

text \<open>\<open>SingleLogoutService\<close> is declared with the same four fields.\<close>

type_synonym SingleLogoutService = AssertionConsumerService

record ServiceProvider =
  EntityID :: string
  AssertionConsumerServices :: "AssertionConsumerService list"
  SingleLogoutServices :: "SingleLogoutService list"
  Certificate :: string
  publicKey :: publicKey

section \<open>Library functions the engine calls\<close>

text \<open>
  The Go standard library is not part of the repository. Every function of it that the
  modelled code calls and whose result is not determined by the repository is a field
  of this record, so that each theorem holds for whatever these functions compute.
  \<open>asn1_Unmarshal\<close> is \<open>asn1.Unmarshal\<close> into a \<open>dsaSignature{R, S *big.Int}\<close>: the
  two integers and the bytes left over, or an error.
\<close>

datatype crypto_Hash = crypto_SHA1 | crypto_SHA256

record library =
  base64_DecodeString :: "string \<Rightarrow> error + string"
  base64_EncodeToString :: "string \<Rightarrow> string"
  x509_ParseCertificate :: "string \<Rightarrow> error + publicKey"
  sha1_Sum :: "string \<Rightarrow> string"
  sha256_Sum :: "string \<Rightarrow> string"
  asn1_Unmarshal :: "string \<Rightarrow> error + ((int \<times> int) \<times> string)"
  dsa_Verify :: "string \<Rightarrow> string \<Rightarrow> int \<Rightarrow> int \<Rightarrow> bool"
  rsa_VerifyPKCS1v15 :: "string \<Rightarrow> crypto_Hash \<Rightarrow> string \<Rightarrow> string \<Rightarrow> error + unit"

section \<open>Detached signature of a redirect query (idp/sso.go)\<close>

text \<open>
  \<open>verifySignature\<close>, lines 112-120: the raw query is split at \<open>&\<close>, every component
  at \<open>=\<close>; a component that does not give exactly two parts ends the function with an
  error, the others fill the map \<open>pMap\<close> (a later component overwrites an earlier one
  with the same name).
\<close>

fun parseParams :: "string list \<Rightarrow> (string \<rightharpoonup> string) \<Rightarrow> error + (string \<rightharpoonup> string)" where
  "parseParams [] pMap = Inr pMap"
| "parseParams (p # ps) pMap =
     (let parts = strings_Split p CHR ''=''
      in if length parts \<noteq> 2
         then Inl (errors_New ''trouble validating signature on request'')
         else parseParams ps (pMap(parts ! 0 \<mapsto> parts ! 1)))"

text \<open>Reading a Go map at a missing key gives the zero value, the empty string.\<close>

definition mapIndex :: "(string \<rightharpoonup> string) \<Rightarrow> string \<Rightarrow> string" where
  "mapIndex pMap k = (case pMap k of None \<Rightarrow> [] | Some v \<Rightarrow> v)"

text \<open>Lines 121-127: the string that was signed, rebuilt in the order of the binding.\<close>

definition sigparts :: "(string \<rightharpoonup> string) \<Rightarrow> string list" where
  "sigparts pMap =
     [''SAMLRequest='' @ mapIndex pMap ''SAMLRequest'']
     @ (case pMap ''RelayState'' of
          Some state \<Rightarrow> [''RelayState='' @ state]
        | None \<Rightarrow> [])
     @ [''SigAlg='' @ mapIndex pMap ''SigAlg'']"

definition signedBytes :: "string \<Rightarrow> error + string" where
  "signedBytes rawQuery =
     (case parseParams (strings_Split rawQuery CHR ''&'') Map.empty of
        Inl e \<Rightarrow> Inl e
      | Inr pMap \<Rightarrow> Inr (strings_Join (sigparts pMap) ''&''))"

definition sha1Sum :: "library \<Rightarrow> string \<Rightarrow> string" where
  "sha1Sum L sig = sha1_Sum L sig"

definition sha256Sum :: "library \<Rightarrow> string \<Rightarrow> string" where
  "sha256Sum L sig = sha256_Sum L sig"

text \<open>
  \<open>verifyDSA\<close>: the signature is decoded first, then checked for trailing bytes and
  for the signs of \<open>R\<close> and \<open>S\<close>; only then is the key asserted to be a DSA key (the
  assertion panics on any other key) and the signature verified.
\<close>

definition verifyDSA :: "library \<Rightarrow> ServiceProvider \<Rightarrow> string \<Rightarrow> string \<Rightarrow> error + unit" where
  "verifyDSA L sp signature digest =
     (case asn1_Unmarshal L signature of
        Inl err \<Rightarrow> Inl err
      | Inr ((R, S), rest) \<Rightarrow>
          if length rest \<noteq> 0 then Inl (errors_New ''trailing data after DSA signature'')
          else if R \<le> 0 \<or> S \<le> 0
          then Inl (errors_New ''DSA signature contained zero or negative values'')
          else (case publicKey sp of
                  dsa_PublicKey k \<Rightarrow>
                    if \<not> dsa_Verify L k digest R S
                    then Inl (errors_New ''DSA verification failure'')
                    else Inr ()
                | _ \<Rightarrow> Inl (Panic ''interface conversion: interface {} is not *dsa.PublicKey'')))"

text \<open>
  Lines 129-148 of \<open>verifySignature\<close>: the signature parameter is base64-decoded and
  the algorithm selects the digest and the verification. The RSA cases assert the key
  to be an RSA key while the arguments of \<open>rsa.VerifyPKCS1v15\<close> are evaluated.
\<close>

definition checkSignature :: "library \<Rightarrow> string \<Rightarrow> string \<Rightarrow> string \<Rightarrow> ServiceProvider \<Rightarrow> error + unit" where
  "checkSignature L sig alg expectedSig sp =
     (case base64_DecodeString L expectedSig of
        Inl err \<Rightarrow> Inl err
      | Inr signature \<Rightarrow>
          if alg = ''http://www.w3.org/2009/xmldsig11#dsa-sha256''
          then verifyDSA L sp signature (sha256Sum L sig)
          else if alg = ''http://www.w3.org/2000/09/xmldsig#dsa-sha1''
          then verifyDSA L sp signature (sha1Sum L sig)
          else if alg = ''http://www.w3.org/2000/09/xmldsig#rsa-sha1''
          then (case publicKey sp of
                  rsa_PublicKey k \<Rightarrow> rsa_VerifyPKCS1v15 L k crypto_SHA1 (sha1Sum L sig) signature
                | _ \<Rightarrow> Inl (Panic ''interface conversion: interface {} is not *rsa.PublicKey''))
          else if alg = ''http://www.w3.org/2001/04/xmldsig-more#rsa-sha256''
          then (case publicKey sp of
                  rsa_PublicKey k \<Rightarrow> rsa_VerifyPKCS1v15 L k crypto_SHA256 (sha256Sum L sig) signature
                | _ \<Rightarrow> Inl (Panic ''interface conversion: interface {} is not *rsa.PublicKey''))
          else Inl (errors_New (''unsupported signature algorithm, '' @ alg)))"

definition verifySignature :: "library \<Rightarrow> string \<Rightarrow> string \<Rightarrow> string \<Rightarrow> ServiceProvider \<Rightarrow> error + unit" where
  "verifySignature L rawQuery alg expectedSig sp =
     (case signedBytes rawQuery of
        Inl e \<Rightarrow> Inl e
      | Inr sig \<Rightarrow> checkSignature L sig alg expectedSig sp)"

section \<open>Protocol messages (package saml) and the HTTP request\<close>

text \<open>
  \<open>saml.AuthnRequest\<close> embeds \<open>RequestAbstractType\<close>; the embedding is a record
  extension. \<open>XMLName\<close> only names the XML element and is left out. Instants are
  nanoseconds since the epoch.
\<close>

record RequestAbstractType =
  ID :: string
  Version :: string
  IssueInstant :: int
  Issuer :: string
  Destination :: string

record saml_AuthnRequest = RequestAbstractType +
  AssertionConsumerServiceURL :: string
  ProtocolBinding :: string
  AssertionConsumerServiceIndex :: "32 word"

text \<open>
  Of \<open>http.Request\<close> the engine reads the raw query of the URL, the parsed form
  (\<open>url.Values\<close>, a map from names to the list of their values), the body, the
  remote address and the result of \<open>r.ParseForm()\<close> (nil or an error; when nil,
  \<open>Form\<close> holds the parsed values). \<open>Values.Get\<close> gives the first value of a
  name, or the empty string.
\<close>

record http_Request =
  URL_RawQuery :: string
  Form :: "string \<rightharpoonup> string list"
  Body :: string
  RemoteAddr :: string
  ParseForm :: "error option"

definition Values_Get :: "(string \<rightharpoonup> string list) \<Rightarrow> string \<Rightarrow> string" where
  "Values_Get v key = (case v key of None \<Rightarrow> [] | Some [] \<Rightarrow> [] | Some (x # _) \<Rightarrow> x)"

section \<open>Validation of an authentication request (idp/sso.go)\<close>

text \<open>
  Lines 53-67 of \<open>validateAuthRequest\<close>: the loop over the assertion consumer
  services of the provider. \<open>acs\<close> is the pointer the loop maintains, modelled as the
  position it points to (\<open>None\<close> for nil); \<open>i\<close> is the position of the head of the
  list. A match of the index or of the location assigns and leaves the loop; a default
  entry assigns and goes on.
\<close>

fun acsLoop ::
  "AssertionConsumerService list \<Rightarrow> saml_AuthnRequest \<Rightarrow> nat \<Rightarrow> nat option \<Rightarrow> nat option" where
  "acsLoop [] request i acs = acs"
| "acsLoop (a # rest) request i acs =
     (if Index a = AssertionConsumerServiceIndex request then Some i
      else if Location a = AssertionConsumerServiceURL request then Some i
      else if IsDefault a then acsLoop rest request (i + 1) (Some i)
      else acsLoop rest request (i + 1) acs)"

definition selectACS :: "AssertionConsumerService list \<Rightarrow> saml_AuthnRequest \<Rightarrow> nat option" where
  "selectACS services request = acsLoop services request 0 None"

text \<open>The two tests of the loop that end it: the entry matches the request.\<close>

definition matchesRequest :: "saml_AuthnRequest \<Rightarrow> AssertionConsumerService \<Rightarrow> bool" where
  "matchesRequest request a \<longleftrightarrow>
     Index a = AssertionConsumerServiceIndex request
     \<or> Location a = AssertionConsumerServiceURL request"

text \<open>
  \<open>validateAuthRequest\<close> returns an error or nil and may overwrite the URL of the
  request it was given; the model returns both the result and the request as the
  function leaves it. Of the IdP only the registry \<open>sps\<close> is read. The position the
  loop returns is always within the list (lemma \<open>selectACS_range\<close>).
\<close>

definition validateAuthRequest ::
  "library \<Rightarrow> (string \<rightharpoonup> ServiceProvider) \<Rightarrow> saml_AuthnRequest \<Rightarrow> http_Request
   \<Rightarrow> (error + unit) \<times> saml_AuthnRequest" where
  "validateAuthRequest L sps request r =
     (if Issuer request = [] then (Inl (errors_New ''request does not contain an issuer''), request)
      else case sps (Issuer request) of
        None \<Rightarrow> (Inl (errors_New ''request from an unregistered issuer''), request)
      | Some sp \<Rightarrow>
          (case selectACS (AssertionConsumerServices sp) request of
             None \<Rightarrow> (Inl (errors_New ''unable to determine assertion consumer service''), request)
           | Some n \<Rightarrow>
               let acs = AssertionConsumerServices sp ! n in
               if AssertionConsumerServiceURL request = []
               then (verifySignature L (URL_RawQuery r) (Values_Get (Form r) ''SigAlg'')
                       (Values_Get (Form r) ''Signature'') sp,
                     request\<lparr> AssertionConsumerServiceURL := Location acs \<rparr>)
               else if AssertionConsumerServiceURL request \<noteq> Location acs
               then (Inl (errors_New
                       ''assertion consumer location in request does not match metadata''),
                     request)
               else (verifySignature L (URL_RawQuery r) (Values_Get (Form r) ''SigAlg'')
                       (Values_Get (Form r) ''Signature'') sp,
                     request)))"

section \<open>Registration of service providers (idp/sp.go and the IdP bootstrap)\<close>

text \<open>
  \<open>parseCertificate\<close> stores in the provider whatever public key the certificate
  holds. The method works on a pointer; the model returns the provider as it leaves it.
\<close>

definition parseCertificate :: "library \<Rightarrow> ServiceProvider \<Rightarrow> error + ServiceProvider" where
  "parseCertificate L sp =
     (case base64_DecodeString L (Certificate sp) of
        Inl err \<Rightarrow> Inl (errors_New ''failed to parse PEM block containing the public key'')
      | Inr block \<Rightarrow>
          (case x509_ParseCertificate L block of
             Inl err \<Rightarrow> Inl (errors_New (''failed to parse certificate: '' @ Error err))
           | Inr key \<Rightarrow> Inr (sp\<lparr> publicKey := key \<rparr>)))"

text \<open>
  \<open>configureSPs\<close>, after \<open>initSPs\<close> has fetched the metadata and the configuration
  key \<open>sps\<close> has been read into the list \<open>sps\<close>: every provider's certificate is
  parsed, the first failure ends the bootstrap with its error, and the providers are
  entered in the registry under their entity IDs, a later one replacing an earlier one
  with the same ID.
\<close>

fun registerSPs ::
  "library \<Rightarrow> ServiceProvider list \<Rightarrow> (string \<rightharpoonup> ServiceProvider)
   \<Rightarrow> error + (string \<rightharpoonup> ServiceProvider)" where
  "registerSPs L [] registry = Inr registry"
| "registerSPs L (sp # rest) registry =
     (case parseCertificate L sp of
        Inl err \<Rightarrow> Inl err
      | Inr sp' \<Rightarrow> registerSPs L rest (registry(EntityID sp' \<mapsto> sp')))"

definition configureSPs :: "library \<Rightarrow> ServiceProvider list \<Rightarrow> error + (string \<rightharpoonup> ServiceProvider)" where
  "configureSPs L sps = registerSPs L sps Map.empty"

section \<open>The clock and the generator of identifiers\<close>

text \<open>
  \<open>time.Now()\<close> and the generators of fresh identifiers are effects. The world holds
  what they will return: \<open>clock w n\<close> is the \<open>n\<close>-th reading of the clock (UTC, in
  nanoseconds), \<open>fresh w n\<close> the \<open>n\<close>-th identifier generated; \<open>ticks\<close> and \<open>drawn\<close>
  count the readings and identifiers consumed so far.
\<close>

record world =
  clock :: "nat \<Rightarrow> int"
  ticks :: nat
  fresh :: "nat \<Rightarrow> string"
  drawn :: nat

definition time_Now :: "world \<Rightarrow> int \<times> world" where
  "time_Now w = (clock w (ticks w), w\<lparr> ticks := ticks w + 1 \<rparr>)"

definition uuid_New_String :: "world \<Rightarrow> string \<times> world" where
  "uuid_New_String w = (fresh w (drawn w), w\<lparr> drawn := drawn w + 1 \<rparr>)"

text \<open>
  Modelled from the spec: \<open>saml.NewID\<close> is not among the source files; section 4.7.6
  calls its result a new UUID-style SAML ID. It is the next fresh identifier.
\<close>

definition saml_NewID :: "world \<Rightarrow> string \<times> world" where
  "saml_NewID w = (fresh w (drawn w), w\<lparr> drawn := drawn w + 1 \<rparr>)"

definition time_Minute :: int where
  "time_Minute = 60000000000"

section \<open>The artifact (idp/response.go)\<close>

text \<open>
  The two copying loops of \<open>getArtifact\<close>:
  \<open>for i := lo; i < hi; i++ { artifact[i] = source[i-off] }\<close>.
  \<open>sha1.Sum\<close> returns an array of 20 bytes, so the reads are in range in the source.
\<close>

function copyLoop :: "nat \<Rightarrow> nat \<Rightarrow> nat \<Rightarrow> string \<Rightarrow> string \<Rightarrow> string" where
  "copyLoop i hi off source artifact =
     (if i < hi then copyLoop (i + 1) hi off source (artifact[i := source ! (i - off)])
      else artifact)"
  by pat_completeness auto
termination
  by (relation "measure (\<lambda>(i, hi, off, source, artifact). hi - i)") auto

text \<open>
  The 44 bytes \<open>getArtifact\<close> encodes, given the string \<open>uuid\<close> of the UUID that
  \<open>uuid.New()\<close> generates in the call; \<open>getArtifact\<close> draws that UUID and encodes
  the bytes.
\<close>

definition artifactBytes :: "library \<Rightarrow> string \<Rightarrow> string \<Rightarrow> string" where
  "artifactBytes L uuid entityID =
     (let artifact = replicate 44 (CHR 0x00);
          artifact = artifact[1 := CHR 0x04];
          artifact = artifact[3 := CHR 0x01];
          source = sha1_Sum L entityID;
          artifact = copyLoop 4 24 4 source artifact;
          message = sha1_Sum L uuid
      in copyLoop 24 44 24 message artifact)"

definition getArtifact :: "library \<Rightarrow> string \<Rightarrow> world \<Rightarrow> string \<times> world" where
  "getArtifact L entityID wd =
     (let (uuid, wd) = uuid_New_String wd
      in (base64_EncodeToString L (artifactBytes L uuid entityID), wd))"

section \<open>The LDAP password validator (client/ldap.go)\<close>

text \<open>
  The directory and the client library (\<open>github.com/go-ldap/ldap/v3\<close>) are outside the
  repository. The answers of the directory are the three functions \<open>dial\<close>,
  \<open>simpleBind\<close> and \<open>search\<close> (\<open>None\<close> is a nil error). The library refuses two
  requests itself, before anything is written to the connection: \<open>conn.SimpleBind\<close>
  returns an error for an empty password (the client never sets \<open>AllowEmptyPassword\<close>),
  and \<open>conn.Search\<close> first compiles the filter of the request with
  \<open>ldap.CompileFilter\<close> and returns its error when the filter is ill-formed. The
  compiler is the parameter \<open>ldap_CompileFilter\<close> (\<open>None\<close>: the filter compiles).
  \<open>sent\<close> records, in order, the connection attempts and every request that is sent,
  so that a theorem can speak about what the directory receives.
\<close>

datatype ldap_Scope = ScopeBaseObject | ScopeSingleLevel | ScopeWholeSubtree

datatype ldap_DerefAliases =
  NeverDerefAliases | DerefInSearching | DerefFindingBaseObj | DerefAlways

record ldap_SearchRequest =
  BaseDN :: string
  Scope :: ldap_Scope
  DerefAliases :: ldap_DerefAliases
  SizeLimit :: int
  TimeLimit :: int
  TypesOnly :: bool
  Filter :: string
  Attributes :: "string list"

record ldap_Entry =
  DN :: string
  EntryAttributes :: "(string \<times> string list) list"

datatype ldap_Op =
    OpDialURL string
  | OpSimpleBind string string
  | OpSearch ldap_SearchRequest
  | OpClose

record directory =
  ldap_CompileFilter :: "string \<Rightarrow> error option"
  dial :: "string \<Rightarrow> error option"
  simpleBind :: "string \<Rightarrow> string \<Rightarrow> error option"
  search :: "ldap_SearchRequest \<Rightarrow> error + ldap_Entry list"
  sent :: "ldap_Op list"

definition send :: "ldap_Op \<Rightarrow> directory \<Rightarrow> directory" where
  "send op D = D\<lparr> sent := sent D @ [op] \<rparr>"

text \<open>The search requests among a sequence of operations, in order.\<close>

fun searchRequests :: "ldap_Op list \<Rightarrow> ldap_SearchRequest list" where
  "searchRequests [] = []"
| "searchRequests (OpSearch request # ops) = request # searchRequests ops"
| "searchRequests (op # ops) = searchRequests ops"

record ldapConfig =
  Addr :: string
  BindDN :: string
  BindDNCredential :: string
  SearchBase :: string

text \<open>\<open>entry.GetAttributeValues\<close>: the values of the first attribute of that name.\<close>

fun GetAttributeValues :: "(string \<times> string list) list \<Rightarrow> string \<Rightarrow> string list" where
  "GetAttributeValues [] attribute = []"
| "GetAttributeValues ((name, vals) # rest) attribute =
     (if name = attribute then vals else GetAttributeValues rest attribute)"

text \<open>
  The error of \<open>conn.SimpleBind\<close> for an empty password, result code 206 of the
  library.
\<close>

definition ErrorEmptyPassword :: error where
  "ErrorEmptyPassword =
     errors_New (''LDAP Result Code 206 '' @ [CHR 0x22]
                 @ ''Empty password not allowed by the client'' @ [CHR 0x22]
                 @ '': ldap: empty password not allowed by the client'')"

text \<open>
  \<open>getConn\<close>: a connection that is dialled and bound. When the bind fails the
  connection is returned to nobody and is not closed.
\<close>

definition getConn ::
  "ldapConfig \<Rightarrow> string \<Rightarrow> string \<Rightarrow> directory \<Rightarrow> (error + unit) \<times> directory" where
  "getConn client username password D =
     (let D = send (OpDialURL (Addr client)) D in
      case dial D (Addr client) of
        Some err \<Rightarrow> (Inl err, D)
      | None \<Rightarrow>
          if password = [] then (Inl ErrorEmptyPassword, D)
          else
            (let D = send (OpSimpleBind username password) D in
             case simpleBind D username password of
               Some err \<Rightarrow> (Inl err, D)
             | None \<Rightarrow> (Inr (), D)))"

definition getConnWithAdmin :: "ldapConfig \<Rightarrow> directory \<Rightarrow> (error + unit) \<times> directory" where
  "getConnWithAdmin client D = getConn client (BindDN client) (BindDNCredential client) D"

text \<open>
  \<open>sendRequest\<close>: the search on the administrator's connection, which the deferred
  \<open>conn.Close\<close> closes whatever \<open>conn.Search\<close> returns. \<open>conn.Search\<close> compiles the
  filter while it encodes the request; with a filter that does not compile it returns
  the compiler's error and the directory receives no search.
\<close>

definition sendRequest ::
  "ldapConfig \<Rightarrow> ldap_SearchRequest \<Rightarrow> directory \<Rightarrow> (error + ldap_Entry list) \<times> directory" where
  "sendRequest client request D =
     (case getConnWithAdmin client D of
        (Inl err, D) \<Rightarrow> (Inl err, D)
      | (Inr conn, D) \<Rightarrow>
          (case ldap_CompileFilter D (Filter request) of
             Some err \<Rightarrow> (Inl err, send OpClose D)
           | None \<Rightarrow>
               (let D = send (OpSearch request) D;
                    result = search D request
                in (result, send OpClose D))))"

definition buildSearchRequest :: "string \<Rightarrow> string \<Rightarrow> string list \<Rightarrow> ldap_SearchRequest" where
  "buildSearchRequest dn filter' attributes =
     \<lparr> BaseDN = dn, Scope = ScopeWholeSubtree, DerefAliases = NeverDerefAliases,
       SizeLimit = 0, TimeLimit = 0, TypesOnly = False, Filter = filter',
       Attributes = attributes \<rparr>"

fun getAttributes ::
  "ldap_Entry \<Rightarrow> string list \<Rightarrow> (string \<rightharpoonup> string list) \<Rightarrow> (string \<rightharpoonup> string list)" where
  "getAttributes entry [] attrs = attrs"
| "getAttributes entry (attribute # rest) attrs =
     getAttributes entry rest
       (attrs(attribute \<mapsto> GetAttributeValues (EntryAttributes entry) attribute))"

text \<open>
  The loop of \<open>Authenticate\<close> over the entries found: a bind that fails is logged and
  the next entry is tried; the first bind that succeeds returns the attributes of its
  entry. With no entry left the error is the text of \<open>LDAPResultNoSuchObject\<close>.
\<close>

fun bindEntries ::
  "ldapConfig \<Rightarrow> string \<Rightarrow> string list \<Rightarrow> ldap_Entry list \<Rightarrow> directory
   \<Rightarrow> (error + (string \<rightharpoonup> string list)) \<times> directory" where
  "bindEntries client password attributes [] D = (Inl (errors_New ''No Such Object''), D)"
| "bindEntries client password attributes (entry # rest) D =
     (case getConn client (DN entry) password D of
        (Inl err, D) \<Rightarrow> bindEntries client password attributes rest D
      | (Inr conn, D) \<Rightarrow> (Inr (getAttributes entry attributes Map.empty), send OpClose D))"

definition Authenticate ::
  "ldapConfig \<Rightarrow> string \<Rightarrow> string \<Rightarrow> directory
   \<Rightarrow> (error + (string \<rightharpoonup> string list)) \<times> directory" where
  "Authenticate client username password D =
     (let attributes = [''cn'', ''gidNumber'', ''memberUid'', ''uid'', ''uidNumber'', ''mail''];
          request = buildSearchRequest (SearchBase client) (''(cn='' @ username @ '')'') attributes
      in case sendRequest client request D of
           (Inl err, D) \<Rightarrow> (Inl (errors_New ''can not find user's DN''), D)
         | (Inr entries, D) \<Rightarrow> bindEntries client password attributes entries D)"

text \<open>
  The escaping of RFC 4515, section 3, that the specification asks for: the characters
  \<open>*\<close>, \<open>(\<close>, \<open>)\<close>, the backslash and NUL are written as a backslash and two
  hexadecimal digits. It has no counterpart in the source and is defined only to
  compare the filter of the source with.
\<close>

definition rfc4515_escape :: "string \<Rightarrow> string" where
  "rfc4515_escape s =
     concat (map (\<lambda>c. if c = CHR ''*'' then CHR 0x5C # ''2a''
                       else if c = CHR ''('' then CHR 0x5C # ''28''
                       else if c = CHR '')'' then CHR 0x5C # ''29''
                       else if c = CHR 0x5C then CHR 0x5C # ''5c''
                       else if c = CHR 0x00 then CHR 0x5C # ''00''
                       else [c]) s)"

section \<open>Responses and assertions (package saml)\<close>

text \<open>
  \<open>StatusResponseType\<close>, \<open>Status\<close>, \<open>StatusCode\<close>, \<open>Response\<close> and the artifact
  envelopes are declared in the source. The assertion types are declared in a file of
  the package that is not among the sources; their records have the fields that
  idp/response.go assigns. A pointer field is an \<open>option\<close>, \<open>None\<close> for nil. The
  result of \<open>saml.NewIssuer\<close>, also not among the sources, is kept as the constructor
  applied to its argument.
\<close>

datatype saml_Issuer = saml_NewIssuer string

record StatusCode =
  Value :: string

record Status =
  StatusCode :: StatusCode

record StatusResponseType =
  ID :: string
  Version :: string
  IssueInstant :: int
  Issuer :: "saml_Issuer option"
  Destination :: string
  InResponseTo :: string
  Status :: "Status option"

record NameID =
  Format :: string
  NameQualifier :: string
  SPNameQualifier :: string
  Value :: string

record SubjectConfirmationData =
  Address :: "string option"
  InResponseTo :: string
  Recipient :: string
  NotOnOrAfter :: int

record SubjectConfirmation =
  Method :: string
  SubjectConfirmationData :: "SubjectConfirmationData option"

record Subject =
  NameID :: "NameID option"
  SubjectConfirmation :: "SubjectConfirmation option"

record AudienceRestriction =
  Audience :: string

record Conditions =
  NotOnOrAfter :: int
  NotBefore :: int
  AudienceRestriction :: "AudienceRestriction option"

record SubjectLocality =
  DNSName :: string

record AuthnContext =
  AuthnContextClassRef :: string

record AuthnStatement =
  AuthnInstant :: int
  SessionIndex :: string
  SubjectLocality :: "SubjectLocality option"
  AuthnContext :: "AuthnContext option"

section \<open>Stored messages (package model)\<close>

text \<open>
  Modelled from the spec: the protobuf messages of package \<open>model\<close> are not among the
  source files. Their fields are those of section 3 of the specification (the source
  reads \<open>ID\<close>, \<open>Issuer\<close>, \<open>AssertionConsumerServiceURL\<close>, \<open>ProtocolBinding\<close> and
  \<open>RelayState\<close> of a request, and \<open>Name\<close>, \<open>Format\<close>, \<open>Context\<close>, \<open>IP\<close>,
  \<open>X509Certificate\<close> and \<open>Attributes\<close> of a user).
\<close>

record model_Attribute =
  Name :: string
  Value :: "string list"

record User =
  Name :: string
  Format :: string
  Context :: string
  IP :: string
  X509Certificate :: string
  Attributes :: "model_Attribute list"

record model_AuthnRequest =
  ID :: string
  Issuer :: string
  AssertionConsumerServiceURL :: string
  AssertionConsumerServiceIndex :: "32 word"
  ProtocolBinding :: string
  RelayState :: string
  IssueInstant :: int
  Destination :: string

record model_ArtifactResponse =
  User :: "User option"
  Request :: "model_AuthnRequest option"

text \<open>
  Modelled from the spec: \<open>user.AttributeStatement()\<close> is a method of package
  \<open>model\<close>; by section 4.7.6 the attribute statement is the user's attributes.
\<close>

definition AttributeStatement_of :: "User \<Rightarrow> model_Attribute list" where
  "AttributeStatement_of user = User.Attributes user"

record Assertion =
  ID :: string
  IssueInstant :: int
  Issuer :: "saml_Issuer option"
  Version :: string
  Subject :: "Subject option"
  AttributeStatement :: "model_Attribute list"
  Conditions :: "Conditions option"
  AuthnStatement :: "AuthnStatement option"
  Signature :: "string option"

record Response = StatusResponseType +
  RawAssertion :: string
  Assertion :: "Assertion option"

record ArtifactResolve = RequestAbstractType +
  Artifact :: string

record ArtifactResolveBody =
  ArtifactResolve :: ArtifactResolve

record ArtifactResolveEnvelope =
  Body :: ArtifactResolveBody

record saml_ArtifactResponse = StatusResponseType +
  Response :: Response

record ArtifactResponseBody =
  ArtifactResponse :: saml_ArtifactResponse

record ArtifactResponseEnvelope =
  Body :: ArtifactResponseBody

section \<open>The caches (package store)\<close>

text \<open>
  Modelled from the spec: package \<open>store\<close> is not among the source files. By section
  4.2 a cache maps keys to byte strings with an expiry; \<open>Set\<close> inserts or replaces and
  gives the entry the TTL of the cache, \<open>Get\<close> returns the bytes of an entry that has
  not expired and fails otherwise (a missing and an expired entry look the same to the
  caller), \<open>Delete\<close> removes the entry. The cache reads the clock itself. \<open>Get\<close>
  returns no cache: it cannot change one.
\<close>

record Cache =
  ttl :: int
  entries :: "string \<rightharpoonup> (string \<times> int)"

definition Cache_Set :: "Cache \<Rightarrow> string \<Rightarrow> string \<Rightarrow> world \<Rightarrow> (error + unit) \<times> Cache \<times> world" where
  "Cache_Set c key val wd =
     (let (now, wd) = time_Now wd
      in (Inr (), c\<lparr> entries := (entries c)(key \<mapsto> (val, now + ttl c)) \<rparr>, wd))"

definition Cache_Get :: "Cache \<Rightarrow> string \<Rightarrow> world \<Rightarrow> (error + string) \<times> world" where
  "Cache_Get c key wd =
     (let (now, wd) = time_Now wd
      in (case entries c key of
            None \<Rightarrow> Inl (errors_New ''not found'')
          | Some (val, expiresAt) \<Rightarrow>
              if now \<ge> expiresAt then Inl (errors_New ''not found'') else Inr val,
          wd))"

definition Cache_Delete :: "Cache \<Rightarrow> string \<Rightarrow> Cache" where
  "Cache_Delete c key = c\<lparr> entries := (entries c)(key := None) \<rparr>"

section \<open>The HTTP response (package net/http)\<close>

text \<open>
  What the handlers do to the \<open>http.ResponseWriter\<close>: the status is written once
  (\<open>None\<close> until then; the first \<open>Write\<close> makes it 200), and header fields and cookies
  set after the status has been written are not sent. \<open>http.Error\<close> sets the content
  type, writes the status and the message. \<open>http.Redirect\<close> is modelled for the URLs
  the engine passes (a rooted, clean path or an absolute URL): it sets \<open>Location\<close> and
  writes the status; the short HTML body it adds for GET requests is left out.
\<close>

record http_Cookie =
  Name :: string
  Value :: string
  Path :: string
  MaxAge :: int
  Secure :: bool
  HttpOnly :: bool

record http_ResponseWriter =
  status :: "nat option"
  header :: "(string \<times> string) list"
  cookies :: "http_Cookie list"
  body :: string

definition newResponseWriter :: http_ResponseWriter where
  "newResponseWriter = \<lparr> status = None, header = [], cookies = [], body = [] \<rparr>"

definition Header_Set :: "string \<Rightarrow> string \<Rightarrow> http_ResponseWriter \<Rightarrow> http_ResponseWriter" where
  "Header_Set k v rw =
     (if status rw = None
      then rw\<lparr> header := filter (\<lambda>(k', v'). k' \<noteq> k) (header rw) @ [(k, v)] \<rparr>
      else rw)"

definition WriteHeader :: "nat \<Rightarrow> http_ResponseWriter \<Rightarrow> http_ResponseWriter" where
  "WriteHeader code rw = (if status rw = None then rw\<lparr> status := Some code \<rparr> else rw)"

definition Write :: "string \<Rightarrow> http_ResponseWriter \<Rightarrow> http_ResponseWriter" where
  "Write data rw = (WriteHeader 200 rw)\<lparr> body := body rw @ data \<rparr>"

definition http_SetCookie :: "http_Cookie \<Rightarrow> http_ResponseWriter \<Rightarrow> http_ResponseWriter" where
  "http_SetCookie cookie rw =
     (if status rw = None then rw\<lparr> cookies := cookies rw @ [cookie] \<rparr> else rw)"

definition http_Error :: "string \<Rightarrow> nat \<Rightarrow> http_ResponseWriter \<Rightarrow> http_ResponseWriter" where
  "http_Error msg code rw =
     Write (msg @ [CHR 0x0A])
       (WriteHeader code
         (Header_Set ''X-Content-Type-Options'' ''nosniff''
           (Header_Set ''Content-Type'' ''text/plain; charset=utf-8'' rw)))"

definition http_Redirect :: "string \<Rightarrow> nat \<Rightarrow> http_ResponseWriter \<Rightarrow> http_ResponseWriter" where
  "http_Redirect url code rw = WriteHeader code (Header_Set ''Location'' url rw)"

text \<open>
  \<open>url.QueryEscape\<close>: letters, digits and \<open>- _ . ~\<close> stay, a space becomes \<open>+\<close>,
  every other byte becomes \<open>%\<close> and two upper-case hexadecimal digits.
\<close>

definition shouldEscape :: "char \<Rightarrow> bool" where
  "shouldEscape c =
     (let n = (of_char c :: nat)
      in \<not> ((97 \<le> n \<and> n \<le> 122) \<or> (65 \<le> n \<and> n \<le> 90) \<or> (48 \<le> n \<and> n \<le> 57)
             \<or> c = CHR ''-'' \<or> c = CHR ''_'' \<or> c = CHR ''.'' \<or> c = CHR ''~''))"

definition upperhex :: "nat \<Rightarrow> char" where
  "upperhex n = ''0123456789ABCDEF'' ! (n mod 16)"

fun url_QueryEscape :: "string \<Rightarrow> string" where
  "url_QueryEscape [] = []"
| "url_QueryEscape (c # s) =
     (if c = CHR '' '' then CHR ''+'' # url_QueryEscape s
      else if shouldEscape c
      then CHR ''%'' # upperhex (of_char c div 16) # upperhex (of_char c mod 16)
             # url_QueryEscape s
      else c # url_QueryEscape s)"

section \<open>The IdP and its collaborators\<close>

text \<open>
  The encoders, decoders and parsers the handlers call are library functions; like the
  cryptographic ones they are parameters. \<open>url_Parse\<close> gives the parsed URL, whose
  \<open>RawQuery\<close> the engine overwrites before it prints the URL with \<open>URL_String\<close>.
\<close>

record url_URL =
  RawQuery :: string
  otherParts :: string

record codec =
  proto_Marshal_User :: "User \<Rightarrow> error + string"
  proto_Marshal_ArtifactResponse :: "model_ArtifactResponse \<Rightarrow> error + string"
  proto_Unmarshal_AuthnRequest :: "string \<Rightarrow> error + model_AuthnRequest"
  proto_Unmarshal_ArtifactResponse :: "string \<Rightarrow> error + model_ArtifactResponse"
  xml_Decode_ArtifactResolveEnvelope :: "string \<Rightarrow> error + ArtifactResolveEnvelope"
  xml_Header :: string
  xml_Encode :: "ArtifactResponseEnvelope \<Rightarrow> string"
  url_Parse :: "string \<Rightarrow> error + url_URL"
  URL_String :: "url_URL \<Rightarrow> string"
  Values_Encode :: "(string \<times> string list) list \<Rightarrow> string"
  net_ParseIP :: "string \<Rightarrow> string option"
  IP_String :: "string option \<Rightarrow> string"

datatype LoginType = CertificateLogin | PasswordLogin

text \<open>
  The fields of \<open>IDP\<close> that the modelled functions use. \<open>PasswordValidator\<close> is the
  interface value (it returns the attribute map as the list of its entries in the order
  the runtime iterates over them); \<open>audited\<close> records the calls of
  \<open>Auditor.LogSuccess\<close>; \<open>signer_CreateSignature\<close> is the signer's method.
  A handler works on the IdP, the response writer and the world together.
\<close>

record IDP =
  TempCache :: Cache
  UserCache :: Cache
  PasswordValidator :: "string \<Rightarrow> string \<Rightarrow> error + (string \<times> string list) list"
  audited :: "(User \<times> model_AuthnRequest \<times> LoginType) list"
  signer_CreateSignature :: "Assertion \<Rightarrow> error + string"
  cookieName :: string
  serverName :: string
  entityID :: string

record state =
  idp :: IDP
  rw :: http_ResponseWriter
  wld :: world

text \<open>
  \<open>sendPostResponse\<close> and \<open>sendECPResponse\<close> are methods of the IdP defined in files
  that are not among the sources; \<open>respond\<close> takes them as parameters.
\<close>

record senders =
  sendPostResponse ::
    "model_AuthnRequest \<Rightarrow> User \<Rightarrow> http_Request \<Rightarrow> state \<Rightarrow> (error + unit) \<times> state"
  sendECPResponse ::
    "model_AuthnRequest \<Rightarrow> User \<Rightarrow> http_Request \<Rightarrow> state \<Rightarrow> (error + unit) \<times> state"

section \<open>Building the response (idp/response.go)\<close>

text \<open>
  \<open>makeResponse\<close> reads the clock once and draws two identifiers, in the order of the
  fields of its composite literal: the response's ID, then the assertion's.
\<close>

definition makeResponse :: "IDP \<Rightarrow> string \<Rightarrow> string \<Rightarrow> User \<Rightarrow> world \<Rightarrow> Response \<times> world" where
  "makeResponse i id' issuer user wd =
     (let (now, wd) = time_Now wd;
          fiveFromNow = now + 5 * time_Minute;
          (responseID, wd) = saml_NewID wd;
          (assertionID, wd) = saml_NewID wd
      in (\<lparr> StatusResponseType.ID = responseID,
            StatusResponseType.Version = ''2.0'',
            StatusResponseType.IssueInstant = now,
            StatusResponseType.Issuer = Some (saml_NewIssuer (entityID i)),
            StatusResponseType.Destination = [],
            StatusResponseType.InResponseTo = id',
            StatusResponseType.Status =
              Some \<lparr> StatusCode =
                       \<lparr> StatusCode.Value = ''urn:oasis:names:tc:SAML:2.0:status:Success'' \<rparr> \<rparr>,
            RawAssertion = [],
            Assertion =
              Some \<lparr> Assertion.ID = assertionID,
                     Assertion.IssueInstant = now,
                     Assertion.Issuer = Some (saml_NewIssuer (entityID i)),
                     Assertion.Version = ''2.0'',
                     Subject =
                       Some \<lparr> NameID =
                                Some \<lparr> NameID.Format = User.Format user,
                                       NameQualifier = entityID i,
                                       SPNameQualifier = issuer,
                                       NameID.Value = User.Name user \<rparr>,
                              SubjectConfirmation =
                                Some \<lparr> Method = ''urn:oasis:names:tc:SAML:2.0:cm:sender-vouches'',
                                       SubjectConfirmationData = None \<rparr> \<rparr>,
                     AttributeStatement = AttributeStatement_of user,
                     Conditions =
                       Some \<lparr> Conditions.NotOnOrAfter = fiveFromNow,
                              NotBefore = now,
                              AudienceRestriction = Some \<lparr> Audience = issuer \<rparr> \<rparr>,
                     AuthnStatement = None,
                     Signature = None \<rparr> \<rparr>,
          wd))"

text \<open>
  \<open>makeAuthnResponse\<close> reads the clock itself, before it calls \<open>makeResponse\<close>, and
  draws the session index afterwards. The assignments through \<open>resp.Assertion\<close> and
  \<open>resp.Assertion.Subject\<close> dereference pointers that \<open>makeResponse\<close> has set.
\<close>

definition makeAuthnResponse ::
  "codec \<Rightarrow> IDP \<Rightarrow> model_AuthnRequest \<Rightarrow> User \<Rightarrow> world \<Rightarrow> (error + Response) \<times> world" where
  "makeAuthnResponse C i request user wd =
     (let (now, wd) = time_Now wd;
          fiveFromNow = now + 5 * time_Minute;
          (resp, wd) = makeResponse i (model_AuthnRequest.ID request)
                         (model_AuthnRequest.Issuer request) user wd;
          (sessionIndex, wd) = saml_NewID wd
      in case Assertion resp of
           None \<Rightarrow> (Inl (Panic ''invalid memory address or nil pointer dereference''), wd)
         | Some assertion \<Rightarrow>
             (case Subject assertion of
                None \<Rightarrow> (Inl (Panic ''invalid memory address or nil pointer dereference''), wd)
              | Some subject \<Rightarrow>
                  (Inr (resp\<lparr> Assertion := Some (assertion
                          \<lparr> AuthnStatement :=
                              Some \<lparr> AuthnInstant = now,
                                     SessionIndex = sessionIndex,
                                     SubjectLocality = Some \<lparr> DNSName = serverName i \<rparr>,
                                     AuthnContext =
                                       Some \<lparr> AuthnContextClassRef = User.Context user \<rparr> \<rparr>,
                            Subject :=
                              Some (subject
                                \<lparr> SubjectConfirmation :=
                                    Some \<lparr> Method = ''urn:oasis:names:tc:SAML:2.0:cm:bearer'',
                                           SubjectConfirmationData =
                                             Some \<lparr> Address = net_ParseIP C (User.IP user),
                                                    SubjectConfirmationData.InResponseTo =
                                                      model_AuthnRequest.ID request,
                                                    Recipient =
                                                      model_AuthnRequest.AssertionConsumerServiceURL
                                                        request,
                                                    SubjectConfirmationData.NotOnOrAfter =
                                                      fiveFromNow \<rparr> \<rparr> \<rparr>) \<rparr>) \<rparr>),
                   wd)))"

section \<open>Sending the artifact and resolving it (idp/artifact.go)\<close>

text \<open>
  \<open>sendArtifactResponse\<close> reports a URL that does not parse and a message that does
  not marshal through \<open>i.Error\<close> (the default, \<open>http.Error\<close>) and goes on: with a
  nil \<open>target\<close> the assignment to \<open>target.RawQuery\<close> panics, after the cache has
  been written. The result of \<open>TempCache.Set\<close> is discarded.
\<close>

definition sendArtifactResponse ::
  "library \<Rightarrow> codec \<Rightarrow> model_AuthnRequest \<Rightarrow> User \<Rightarrow> http_Request \<Rightarrow> state
   \<Rightarrow> (error + unit) \<times> state" where
  "sendArtifactResponse L C authRequest user r s =
     (let (target, s) =
            (case url_Parse C (model_AuthnRequest.AssertionConsumerServiceURL authRequest) of
               Inl err \<Rightarrow> (None, s\<lparr> rw := http_Error (Error err) 500 (rw s) \<rparr>)
             | Inr u \<Rightarrow> (Some u, s));
          (artifact, wd) = getArtifact L (entityID (idp s)) (wld s);
          response = \<lparr> User = Some user, Request = Some authRequest \<rparr>;
          (data, s) =
            (case proto_Marshal_ArtifactResponse C response of
               Inl err \<Rightarrow> ([], s\<lparr> rw := http_Error (Error err) 500 (rw s) \<rparr>)
             | Inr data \<Rightarrow> (data, s));
          (res, cache, wd) = Cache_Set (TempCache (idp s)) artifact data wd;
          s = s\<lparr> idp := (idp s)\<lparr> TempCache := cache \<rparr>, wld := wd \<rparr>;
          parameters = [(''SAMLart'', [artifact]),
                        (''RelayState'', [RelayState authRequest])]
      in case target of
           None \<Rightarrow> (Inl (Panic ''invalid memory address or nil pointer dereference''), s)
         | Some u \<Rightarrow>
             (Inr (),
              s\<lparr> rw := http_Redirect (URL_String C (u\<lparr> RawQuery := Values_Encode C parameters \<rparr>))
                          302 (rw s) \<rparr>))"

text \<open>
  \<open>processArtifactResolutionRequest\<close> returns nothing; the result of the model is
  \<open>Inr ()\<close> unless the function panics (a stored message without request or user
  makes \<open>makeAuthnResponse\<close> dereference nil; the world of the state returned with
  a panic is the one at the call). Errors are reported through \<open>i.Error\<close>, by default
  \<open>http.Error\<close>. The function reads the cache with \<open>Get\<close> and calls neither
  \<open>Set\<close> nor \<open>Delete\<close>. The envelope holds a copy of the response made
  before the signature is attached, but the copy shares the assertion, so that the
  envelope that is encoded carries the signature.
\<close>

definition processArtifactResolutionRequest ::
  "codec \<Rightarrow> http_Request \<Rightarrow> state \<Rightarrow> (error + unit) \<times> state" where
  "processArtifactResolutionRequest C r s =
     (case xml_Decode_ArtifactResolveEnvelope C (http_Request.Body r) of
        Inl err \<Rightarrow> (Inr (), s\<lparr> rw := http_Error (Error err) 500 (rw s) \<rparr>)
      | Inr resolveEnv \<Rightarrow>
          (let artifact = Artifact (ArtifactResolve (ArtifactResolveEnvelope.Body resolveEnv));
               (got, wd) = Cache_Get (TempCache (idp s)) artifact (wld s);
               s = s\<lparr> wld := wd \<rparr>
           in case got of
                Inl err \<Rightarrow> (Inr (), s\<lparr> rw := http_Error (Error err) 500 (rw s) \<rparr>)
              | Inr data \<Rightarrow>
                  (case proto_Unmarshal_ArtifactResponse C data of
                     Inl err \<Rightarrow> (Inr (), s\<lparr> rw := http_Error (Error err) 500 (rw s) \<rparr>)
                   | Inr artifactResponse \<Rightarrow>
                       (let (now, wd) = time_Now (wld s);
                            s = s\<lparr> wld := wd \<rparr>
                        in case (Request artifactResponse, User artifactResponse) of
                             (Some request, Some user) \<Rightarrow>
                               (case makeAuthnResponse C (idp s) request user (wld s) of
                                  (Inl err, wd) \<Rightarrow> (Inl err, s\<lparr> wld := wd \<rparr>)
                                | (Inr response, wd) \<Rightarrow>
                                    (let (envelopeID, wd) = saml_NewID wd;
                                         s = s\<lparr> wld := wd \<rparr>
                                     in case Assertion response of
                                          None \<Rightarrow>
                                            (Inl (Panic
                                               ''invalid memory address or nil pointer dereference''),
                                             s)
                                        | Some assertion \<Rightarrow>
                                            (case signer_CreateSignature (idp s) assertion of
                                               Inl err \<Rightarrow>
                                                 (Inr (),
                                                  s\<lparr> rw := http_Error (Error err) 500 (rw s) \<rparr>)
                                             | Inr signature \<Rightarrow>
                                                 (let signed = response
                                                        \<lparr> Assertion := Some (assertion
                                                            \<lparr> Signature := Some signature \<rparr>) \<rparr>;
                                                      artResponseEnv =
                                                        \<lparr> ArtifactResponseEnvelope.Body =
                                                          \<lparr> ArtifactResponse =
                                                            \<lparr> StatusResponseType.ID = envelopeID,
                                                              StatusResponseType.Version = ''2.0'',
                                                              StatusResponseType.IssueInstant = now,
                                                              StatusResponseType.Issuer =
                                                                Some (saml_NewIssuer (entityID (idp s))),
                                                              StatusResponseType.Destination = [],
                                                              StatusResponseType.InResponseTo =
                                                                RequestAbstractType.ID
                                                                  (ArtifactResolve
                                                                    (ArtifactResolveEnvelope.Body
                                                                       resolveEnv)),
                                                              StatusResponseType.Status =
                                                                Some \<lparr> StatusCode = \<lparr> StatusCode.Value =
                                                                  ''urn:oasis:names:tc:SAML:2.0:status:Success'' \<rparr> \<rparr>,
                                                              Response = signed \<rparr> \<rparr> \<rparr>
                                                  in (Inr (),
                                                      s\<lparr> rw := Write (xml_Encode C artResponseEnv)
                                                                 (Write (xml_Header C) (rw s)) \<rparr>)))))
                           | _ \<Rightarrow>
                               (Inl (Panic ''invalid memory address or nil pointer dereference''),
                                s)))))"

section \<open>Binding dispatch and the password login (idp/response.go, idp/password.go, idp/sso.go)\<close>

text \<open>
  \<open>respond\<close> stores the user under a new session identifier, sets the session cookie
  and dispatches on the binding of the request.
\<close>

definition respond ::
  "library \<Rightarrow> codec \<Rightarrow> senders \<Rightarrow> model_AuthnRequest \<Rightarrow> User \<Rightarrow> http_Request \<Rightarrow> state
   \<Rightarrow> (error + unit) \<times> state" where
  "respond L C A authRequest user r s =
     (case proto_Marshal_User C user of
        Inl err \<Rightarrow> (Inl err, s)
      | Inr data \<Rightarrow>
          (let (session, wd) = uuid_New_String (wld s);
               (res, cache, wd) = Cache_Set (UserCache (idp s)) session data wd;
               s = s\<lparr> idp := (idp s)\<lparr> UserCache := cache \<rparr>, wld := wd \<rparr>
           in case res of
                Inl err \<Rightarrow> (Inl err, s)
              | Inr ok \<Rightarrow>
                  (let s = s\<lparr> rw := http_SetCookie
                                      \<lparr> http_Cookie.Name = cookieName (idp s),
                                        http_Cookie.Value = session,
                                        Path = ''/'', MaxAge = 0,
                                        Secure = True, HttpOnly = True \<rparr> (rw s) \<rparr>
                   in if model_AuthnRequest.ProtocolBinding authRequest
                           = ''urn:oasis:names:tc:SAML:2.0:bindings:HTTP-Artifact''
                      then sendArtifactResponse L C authRequest user r s
                      else if model_AuthnRequest.ProtocolBinding authRequest
                           = ''urn:oasis:names:tc:SAML:2.0:bindings:HTTP-POST''
                      then sendPostResponse A authRequest user r s
                      else if model_AuthnRequest.ProtocolBinding authRequest
                           = ''urn:oasis:names:tc:SAML:2.0:bindings:PAOS''
                      then sendECPResponse A authRequest user r s
                      else (Inl (errors_New ''unsupported protocol binding''), s))))"

definition getIP :: "codec \<Rightarrow> http_Request \<Rightarrow> string option" where
  "getIP C request =
     (let addr = RemoteAddr request;
          addr = (if CHR '':'' \<in> set addr then strings_Split addr CHR '':'' ! 0 else addr)
      in net_ParseIP C addr)"

definition buildAttributes :: "(string \<times> string list) list \<Rightarrow> model_Attribute list" where
  "buildAttributes attrs =
     map (\<lambda>(attrKey, attrValue).
            \<lparr> model_Attribute.Name = attrKey, model_Attribute.Value = attrValue \<rparr>) attrs"

text \<open>
  \<open>loginWithPasswordForm\<close> returns a user and an error, one of them nil: whatever
  error the validator returns becomes \<open>ErrInvalidPassword\<close>.
\<close>

definition loginWithPasswordForm ::
  "codec \<Rightarrow> http_Request \<Rightarrow> model_AuthnRequest \<Rightarrow> state
   \<Rightarrow> (User option \<times> error option) \<times> state" where
  "loginWithPasswordForm C r authnReq s =
     (let userName = Values_Get (Form r) ''username''
      in case PasswordValidator (idp s) userName (Values_Get (Form r) ''password'') of
           Inl err \<Rightarrow> ((None, Some ErrInvalidPassword), s)
         | Inr attrs \<Rightarrow>
             (let user = \<lparr> User.Name = userName,
                           User.Format = ''urn:oasis:names:tc:SAML:1.1:nameid-format:unspecified'',
                           Context =
                             ''urn:oasis:names:tc:SAML:2.0:ac:classes:PasswordProtectedTransport'',
                           IP = IP_String C (getIP C r),
                           X509Certificate = [],
                           Attributes = buildAttributes attrs \<rparr>
              in ((Some user, None),
                  s\<lparr> idp := (idp s)\<lparr> audited := audited (idp s)
                                           @ [(user, authnReq, PasswordLogin)] \<rparr> \<rparr>)))"

text \<open>
  The function literal inside \<open>DefaultPasswordLoginHandler\<close>, which returns the error
  the handler turns into a redirect, and the handler. A panic of \<open>respond\<close> is not an
  error value: it leaves the handler.
\<close>

definition passwordLogin ::
  "library \<Rightarrow> codec \<Rightarrow> senders \<Rightarrow> string \<Rightarrow> http_Request \<Rightarrow> state \<Rightarrow> (error + unit) \<times> state" where
  "passwordLogin L C A requestID r s =
     (let (got, wd) = Cache_Get (TempCache (idp s)) requestID (wld s);
          s = s\<lparr> wld := wd \<rparr>
      in case got of
           Inl err \<Rightarrow> (Inl err, s)
         | Inr data \<Rightarrow>
             (case proto_Unmarshal_AuthnRequest C data of
                Inl err \<Rightarrow> (Inl err, s)
              | Inr req \<Rightarrow>
                  (case loginWithPasswordForm C r req s of
                     ((Some user, err), s) \<Rightarrow> respond L C A req user r s
                   | ((None, err), s) \<Rightarrow>
                       if err = Some ErrInvalidPassword
                       then (Inl (errors_New ''invalid login or password. Please try again''), s)
                       else (Inr (), s))))"

definition DefaultPasswordLoginHandler ::
  "library \<Rightarrow> codec \<Rightarrow> senders \<Rightarrow> http_Request \<Rightarrow> state \<Rightarrow> (error + unit) \<times> state" where
  "DefaultPasswordLoginHandler L C A r s =
     (case ParseForm r of
        Some err \<Rightarrow> (Inr (), s\<lparr> rw := http_Error (Error err) 500 (rw s) \<rparr>)
      | None \<Rightarrow>
          (let requestID = Values_Get (Form r) ''requestId''
           in case passwordLogin L C A requestID r s of
                (Inr ok, s) \<Rightarrow> (Inr (), s)
              | (Inl (Panic msg), s) \<Rightarrow> (Inl (Panic msg), s)
              | (Inl err, s) \<Rightarrow>
                  (Inr (),
                   s\<lparr> rw := http_Redirect
                               (''/idp/static/login.html?requestId='' @ url_QueryEscape requestID
                                @ ''&error='' @ url_QueryEscape (Error err))
                               302 (rw s) \<rparr>)))"

section \<open>Sample values\<close>

text \<open>
  A concrete library and a concrete service provider, used only to run the model on
  explicit inputs. The sample decoder accepts every string without \<open>!\<close> and returns
  it unchanged, as the sample encoder does; the sample certificate parser reads the key kind off the first byte; the
  sample ASN.1 decoder reads \<open>R\<close> and \<open>S\<close> as the first two decimal digits and leaves
  the remaining bytes; the sample verifications compare the signature with the digest.
\<close>

definition sampleLibrary :: library where
  "sampleLibrary =
     \<lparr> base64_DecodeString =
         (\<lambda>s. if CHR ''!'' \<in> set s then Inl (errors_New ''illegal base64 data'') else Inr s),
       base64_EncodeToString = (\<lambda>s. s),
       x509_ParseCertificate =
         (\<lambda>der. case der of
                   [] \<Rightarrow> Inl (errors_New ''x509: malformed certificate'')
                 | c # k \<Rightarrow>
                     if c = CHR ''R'' then Inr (rsa_PublicKey k)
                     else if c = CHR ''D'' then Inr (dsa_PublicKey k)
                     else if c = CHR ''E'' then Inr (ecdsa_PublicKey k)
                     else Inl (errors_New ''x509: malformed certificate'')),
       sha1_Sum = (\<lambda>s. take 20 (s @ replicate 20 (CHR ''#''))),
       sha256_Sum = (\<lambda>s. take 32 (s @ replicate 32 (CHR ''#''))),
       asn1_Unmarshal =
         (\<lambda>s. case s of
                 r # t # rest \<Rightarrow> Inr ((int (of_char r) - 48, int (of_char t) - 48), rest)
               | _ \<Rightarrow> Inl (errors_New ''asn1: syntax error'')),
       dsa_Verify = (\<lambda>k digest R S. R + S = int (length digest)),
       rsa_VerifyPKCS1v15 =
         (\<lambda>k h digest signature.
            if signature = digest then Inr ()
            else Inl (errors_New ''crypto/rsa: verification error'')) \<rparr>"

definition acsA :: AssertionConsumerService where
  "acsA = \<lparr> Index = 0, IsDefault = False,
            Binding = ''urn:oasis:names:tc:SAML:2.0:bindings:HTTP-POST'',
            Location = ''https://sp.example/a'' \<rparr>"

definition acsB :: AssertionConsumerService where
  "acsB = \<lparr> Index = 1, IsDefault = False,
            Binding = ''urn:oasis:names:tc:SAML:2.0:bindings:HTTP-POST'',
            Location = ''https://sp.example/b'' \<rparr>"

definition acsC :: AssertionConsumerService where
  "acsC = \<lparr> Index = 2, IsDefault = True,
            Binding = ''urn:oasis:names:tc:SAML:2.0:bindings:HTTP-POST'',
            Location = ''https://sp.example/c'' \<rparr>"

definition acsD :: AssertionConsumerService where
  "acsD = \<lparr> Index = 3, IsDefault = True,
            Binding = ''urn:oasis:names:tc:SAML:2.0:bindings:HTTP-Artifact'',
            Location = ''https://sp.example/d'' \<rparr>"

definition sampleSP :: ServiceProvider where
  "sampleSP =
     \<lparr> EntityID = ''https://sp.example/'',
       AssertionConsumerServices = [acsA, acsB],
       SingleLogoutServices = [],
       Certificate = ''Rkey'',
       publicKey = rsa_PublicKey ''key'' \<rparr>"

definition sampleHTTP :: http_Request where
  "sampleHTTP =
     \<lparr> URL_RawQuery = ''SAMLRequest=abc&SigAlg=rsa'', Form = Map.empty,
       http_Request.Body = [], RemoteAddr = ''192.0.2.7:51234'', ParseForm = None \<rparr>"

definition sampleRequest :: saml_AuthnRequest where
  "sampleRequest =
     \<lparr> RequestAbstractType.ID = ''_abc'', RequestAbstractType.Version = ''2.0'',
       RequestAbstractType.IssueInstant = 0,
       RequestAbstractType.Issuer = ''https://sp.example/'',
       RequestAbstractType.Destination = [],
       saml_AuthnRequest.AssertionConsumerServiceURL = ''https://sp.example/a'',
       saml_AuthnRequest.ProtocolBinding = ''urn:oasis:names:tc:SAML:2.0:bindings:HTTP-POST'',
       saml_AuthnRequest.AssertionConsumerServiceIndex = 1 \<rparr>"

text \<open>
  A sample directory with two people; each can bind with their own password, and the
  administrator with \<open>secret\<close>. The sample search knows the filters \<open>(cn=alice)\<close> and
  \<open>(cn=*)\<close>. The sample filter compiler accepts a filter that starts with \<open>(\<close> and
  whose only \<open>)\<close> is its last character, which is how the library treats a single
  item: the item ends at the first \<open>)\<close>, and anything after it is an error.
\<close>

definition sampleCompileFilter :: "string \<Rightarrow> error option" where
  "sampleCompileFilter f =
     (if f = [] \<or> hd f \<noteq> CHR ''(''
      then Some (errors_New ''ldap: filter does not start with an opening parenthesis'')
      else if CHR '')'' \<notin> set f
      then Some (errors_New ''ldap: unexpected end of filter'')
      else if CHR '')'' \<in> set (butlast f)
      then Some (errors_New ''ldap: finished compiling filter with extra at end'')
      else None)"

definition sampleClient :: ldapConfig where
  "sampleClient =
     \<lparr> Addr = ''ldap://localhost:30063'', BindDN = ''cn=admin,dc=aiframe,dc=com'',
       BindDNCredential = ''secret'', SearchBase = ''ou=people,dc=aiframe,dc=com'' \<rparr>"

definition sampleDirectory :: directory where
  "sampleDirectory =
     \<lparr> ldap_CompileFilter = sampleCompileFilter,
       dial = (\<lambda>addr. None),
       simpleBind =
         (\<lambda>username password.
            if (username, password) \<in> {(''cn=admin,dc=aiframe,dc=com'', ''secret''),
                                         (''cn=alice,ou=people,dc=aiframe,dc=com'', ''pw-a''),
                                         (''cn=bob,ou=people,dc=aiframe,dc=com'', ''pw-b'')}
            then None else Some (errors_New ''LDAP Result Code 49: Invalid Credentials'')),
       search =
         (\<lambda>request.
            if Filter request = ''(cn=alice)''
            then Inr [\<lparr> DN = ''cn=alice,ou=people,dc=aiframe,dc=com'',
                         EntryAttributes = [(''cn'', [''alice''])] \<rparr>]
            else if Filter request = ''(cn=*)''
            then Inr [\<lparr> DN = ''cn=alice,ou=people,dc=aiframe,dc=com'',
                         EntryAttributes = [(''cn'', [''alice''])] \<rparr>,
                      \<lparr> DN = ''cn=bob,ou=people,dc=aiframe,dc=com'',
                         EntryAttributes = [(''cn'', [''bob''])] \<rparr>]
            else Inr []),
       sent = [] \<rparr>"

text \<open>
  A sample codec, IdP and world. The sample marshallers write a user as the name and a
  stored artifact response as \<open>name|request-id\<close>; the sample XML decoder takes the
  body of an \<open>ArtifactResolve\<close> to be the artifact. The temporary cache holds, as in
  the test of the password handler, the request \<open>2134\<close> under the key \<open>1234\<close>. The
  sample clock advances by one second per reading.
\<close>

definition sampleUser :: User where
  "sampleUser =
     \<lparr> User.Name = ''alice'',
       User.Format = ''urn:oasis:names:tc:SAML:1.1:nameid-format:unspecified'',
       Context = ''urn:oasis:names:tc:SAML:2.0:ac:classes:PasswordProtectedTransport'',
       IP = ''192.0.2.7'', X509Certificate = [], Attributes = [] \<rparr>"

definition sampleAuthnRequest :: model_AuthnRequest where
  "sampleAuthnRequest =
     \<lparr> model_AuthnRequest.ID = ''2134'',
       model_AuthnRequest.Issuer = ''https://sp.example/'',
       model_AuthnRequest.AssertionConsumerServiceURL = ''https://sp.example/d'',
       model_AuthnRequest.AssertionConsumerServiceIndex = 3,
       model_AuthnRequest.ProtocolBinding =
         ''urn:oasis:names:tc:SAML:2.0:bindings:HTTP-Artifact'',
       RelayState = ''state'',
       model_AuthnRequest.IssueInstant = 0,
       model_AuthnRequest.Destination = [] \<rparr>"

definition sampleCodec :: codec where
  "sampleCodec =
     \<lparr> proto_Marshal_User = (\<lambda>u. Inr (User.Name u)),
       proto_Marshal_ArtifactResponse =
         (\<lambda>a. case (User a, Request a) of
                 (Some u, Some q) \<Rightarrow> Inr (User.Name u @ ''|'' @ model_AuthnRequest.ID q)
               | _ \<Rightarrow> Inr []),
       proto_Unmarshal_AuthnRequest =
         (\<lambda>d. if d = [] then Inl (errors_New ''proto: cannot parse'')
              else Inr (sampleAuthnRequest\<lparr> model_AuthnRequest.ID := d \<rparr>)),
       proto_Unmarshal_ArtifactResponse =
         (\<lambda>d. case strings_Split d CHR ''|'' of
                 [n, q] \<Rightarrow> Inr \<lparr> User = Some (sampleUser\<lparr> User.Name := n \<rparr>),
                                 Request = Some (sampleAuthnRequest\<lparr> model_AuthnRequest.ID := q \<rparr>) \<rparr>
               | _ \<Rightarrow> Inr \<lparr> User = None, Request = None \<rparr>),
       xml_Decode_ArtifactResolveEnvelope =
         (\<lambda>b. if b = [] then Inl (errors_New ''EOF'')
              else Inr \<lparr> ArtifactResolveEnvelope.Body =
                     \<lparr> ArtifactResolve =
                       \<lparr> RequestAbstractType.ID = ''_resolve'',
                         RequestAbstractType.Version = ''2.0'',
                         RequestAbstractType.IssueInstant = 0,
                         RequestAbstractType.Issuer = ''https://sp.example/'',
                         RequestAbstractType.Destination = [],
                         Artifact = b \<rparr> \<rparr> \<rparr>),
       xml_Header = ''<?xml?>'',
       xml_Encode =
         (\<lambda>e. ''<Envelope InResponseTo=''
              @ StatusResponseType.InResponseTo
                  (ArtifactResponse (ArtifactResponseEnvelope.Body e)) @ ''/>''),
       url_Parse =
         (\<lambda>u. if u = [] then Inl (errors_New ''parse: empty url'')
              else Inr \<lparr> RawQuery = [], otherParts = u \<rparr>),
       URL_String = (\<lambda>u. otherParts u @ ''?'' @ RawQuery u),
       Values_Encode =
         (\<lambda>kvs. strings_Join (map (\<lambda>(k, vs). k @ ''='' @ concat (map url_QueryEscape vs)) kvs)
                  ''&''),
       net_ParseIP = (\<lambda>a. if a = [] then None else Some a),
       IP_String = (\<lambda>ip. case ip of None \<Rightarrow> ''<nil>'' | Some a \<Rightarrow> a) \<rparr>"

definition sampleIDP :: IDP where
  "sampleIDP =
     \<lparr> TempCache = \<lparr> ttl = 5 * time_Minute,
                     entries = [''1234'' \<mapsto> (''2134'', 5 * time_Minute)] \<rparr>,
       UserCache = \<lparr> ttl = 480 * time_Minute, entries = Map.empty \<rparr>,
       PasswordValidator =
         (\<lambda>user password.
            if user = ''alice'' \<and> password = ''pw-a'' then Inr [(''cn'', [''alice''])]
            else Inl (errors_New ''No Such Object'')),
       audited = [],
       signer_CreateSignature = (\<lambda>a. Inr (''signed:'' @ Assertion.ID a)),
       cookieName = ''idp-sess'',
       serverName = ''localhost:9443'',
       entityID = ''http://localhost:9443/'' \<rparr>"

definition sampleWorld :: world where
  "sampleWorld =
     \<lparr> clock = (\<lambda>n. int n * 1000000000), ticks = 0,
       fresh = (\<lambda>n. replicate n (CHR ''i'') @ ''-id''), drawn = 0 \<rparr>"

definition sampleSenders :: senders where
  "sampleSenders =
     \<lparr> sendPostResponse = (\<lambda>req user r s. (Inr (), s)),
       sendECPResponse = (\<lambda>req user r s. (Inr (), s)) \<rparr>"

definition sampleState :: state where
  "sampleState = \<lparr> idp = sampleIDP, rw = newResponseWriter, wld = sampleWorld \<rparr>"

definition sampleLoginPost :: http_Request where
  "sampleLoginPost =
     \<lparr> URL_RawQuery = [],
       Form = [''requestId'' \<mapsto> [''1234''], ''username'' \<mapsto> [''alice''],
               ''password'' \<mapsto> [''wrong'']],
       http_Request.Body = ''requestId=1234&username=alice&password=wrong'',
       RemoteAddr = ''192.0.2.7:51234'', ParseForm = None \<rparr>"

text \<open>
  The state after \<open>sendArtifactResponse\<close> has answered the sample request in the sample
  state, the artifact it has stored, and an \<open>ArtifactResolve\<close> for that artifact.
\<close>

definition sampleArtifact :: string where
  "sampleArtifact = fst (getArtifact sampleLibrary (entityID sampleIDP) sampleWorld)"

definition sampleSent :: state where
  "sampleSent =
     snd (sendArtifactResponse sampleLibrary sampleCodec sampleAuthnRequest sampleUser
            sampleHTTP sampleState)"

definition sampleResolve :: http_Request where
  "sampleResolve = sampleHTTP\<lparr> http_Request.Body := sampleArtifact \<rparr>"

section \<open>Properties of the query parser\<close>

lemma strings_Split_nonempty: "strings_Split s c \<noteq> []"
  by (induction s) (auto split: list.splits)

lemma strings_Split_no_sep: "c \<notin> set s \<Longrightarrow> strings_Split s c = [s]"
  by (induction s) auto

lemma strings_Split_append:
  "c \<notin> set s \<Longrightarrow> strings_Split (s @ c # t) c = s # strings_Split t c"
  by (induction s) auto

lemma strings_Split_Join:
  "ps \<noteq> [] \<Longrightarrow> \<forall>p \<in> set ps. c \<notin> set p \<Longrightarrow> strings_Split (strings_Join ps [c]) c = ps"
proof (induction ps "[c]" rule: strings_Join.induct)
  case 1
  then show ?case by simp
next
  case (2 x)
  then show ?case by (simp add: strings_Split_no_sep)
next
  case (3 x y zs)
  then show ?case by (simp add: strings_Split_append)
qed

lemma parseParams_bad_component:
  "\<exists>p \<in> set ps. length (strings_Split p CHR ''='') \<noteq> 2 \<Longrightarrow>
   parseParams ps pMap = Inl (errors_New ''trouble validating signature on request'')"
  by (induction ps arbitrary: pMap) (auto simp: Let_def)

lemma split_kv:
  "CHR ''='' \<notin> set k \<Longrightarrow> CHR ''='' \<notin> set v \<Longrightarrow>
   strings_Split (k @ ''='' @ v) CHR ''='' = [k, v]"
  by (simp add: strings_Split_append strings_Split_no_sep)

lemma parseParams_pairs:
  "\<forall>(k, v) \<in> set kvs. CHR ''='' \<notin> set k \<and> CHR ''='' \<notin> set v \<Longrightarrow>
   parseParams (map (\<lambda>(k, v). k @ ''='' @ v) kvs) m = Inr (m ++ map_of (rev kvs))"
proof (induction kvs arbitrary: m)
  case Nil
  then show ?case by simp
next
  case (Cons kv kvs)
  obtain k v where kv: "kv = (k, v)" by (cases kv)
  from Cons.prems kv have sp: "strings_Split (k @ ''='' @ v) CHR ''='' = [k, v]"
    by (intro split_kv) auto
  have "m(k \<mapsto> v) ++ map_of (rev kvs) = m ++ map_of (rev (kv # kvs))"
    by (simp add: kv map_add_assoc[symmetric] map_add_upd_left)
  with Cons sp kv show ?case by (simp add: Let_def)
qed

lemma strings_Join_sigparts:
  "strings_Join (sigparts pMap) ''&'' =
     ''SAMLRequest='' @ mapIndex pMap ''SAMLRequest''
     @ (case pMap ''RelayState'' of None \<Rightarrow> [] | Some state \<Rightarrow> ''&RelayState='' @ state)
     @ ''&SigAlg='' @ mapIndex pMap ''SigAlg''"
  by (simp add: sigparts_def split: option.splits)

lemma signedBytes_pairs:
  assumes ne: "kvs \<noteq> []"
    and wf: "\<forall>(k, v) \<in> set kvs. CHR ''&'' \<notin> set k \<and> CHR ''='' \<notin> set k
                                 \<and> CHR ''&'' \<notin> set v \<and> CHR ''='' \<notin> set v"
  shows "signedBytes (strings_Join (map (\<lambda>(k, v). k @ ''='' @ v) kvs) ''&'')
         = Inr (strings_Join (sigparts (map_of (rev kvs))) ''&'')"
proof -
  let ?ps = "map (\<lambda>(k, v). k @ ''='' @ v) kvs"
  have "?ps \<noteq> []" using ne by simp
  moreover have "\<forall>p \<in> set ?ps. CHR ''&'' \<notin> set p" using wf by auto
  ultimately have "strings_Split (strings_Join ?ps ''&'') CHR ''&'' = ?ps"
    by (rule strings_Split_Join)
  moreover have "parseParams ?ps Map.empty = Inr (Map.empty ++ map_of (rev kvs))"
    by (rule parseParams_pairs) (use wf in auto)
  ultimately show ?thesis by (simp add: signedBytes_def)
qed

section \<open>Claims about the redirect signature\<close>

lemma checkSignature_rsa_sha1:
  assumes "base64_DecodeString L expectedSig = Inr signature"
    and "publicKey sp = rsa_PublicKey k"
  shows "checkSignature L sig ''http://www.w3.org/2000/09/xmldsig#rsa-sha1'' expectedSig sp
         = rsa_VerifyPKCS1v15 L k crypto_SHA1 (sha1_Sum L sig) signature"
  using assms by (simp add: checkSignature_def sha1Sum_def)

lemma checkSignature_rsa_sha256:
  assumes "base64_DecodeString L expectedSig = Inr signature"
    and "publicKey sp = rsa_PublicKey k"
  shows "checkSignature L sig ''http://www.w3.org/2001/04/xmldsig-more#rsa-sha256'' expectedSig sp
         = rsa_VerifyPKCS1v15 L k crypto_SHA256 (sha256_Sum L sig) signature"
  using assms by (simp add: checkSignature_def sha256Sum_def)

lemma verifyDSA_verify:
  assumes "asn1_Unmarshal L signature = Inr ((R, S), [])" and "0 < R" and "0 < S"
    and "publicKey sp = dsa_PublicKey k"
  shows "verifyDSA L sp signature digest
         = (if dsa_Verify L k digest R S then Inr ()
            else Inl (errors_New ''DSA verification failure''))"
  using assms by (simp add: verifyDSA_def)

lemma checkSignature_dsa_sha256:
  assumes "base64_DecodeString L expectedSig = Inr signature"
  shows "checkSignature L sig ''http://www.w3.org/2009/xmldsig11#dsa-sha256'' expectedSig sp
         = verifyDSA L sp signature (sha256Sum L sig)"
  using assms by (simp add: checkSignature_def)

lemma checkSignature_dsa_sha1:
  assumes "base64_DecodeString L expectedSig = Inr signature"
  shows "checkSignature L sig ''http://www.w3.org/2000/09/xmldsig#dsa-sha1'' expectedSig sp
         = verifyDSA L sp signature (sha1Sum L sig)"
  using assms by (simp add: checkSignature_def)

text \<open>
  Claim C2. Let the raw query be the components \<open>k=v\<close> of a non-empty list of
  parameters joined by \<open>&\<close>, in any order, where no name and no value contains \<open>&\<close>
  or \<open>=\<close> (the values are still URL-encoded), and let it name \<open>SAMLRequest\<close> and
  \<open>SigAlg\<close>. Then the string \<open>verifySignature\<close> signs is \<open>SAMLRequest=<v>\<close>, then
  \<open>&RelayState=<v>\<close> exactly when the query names \<open>RelayState\<close>, then \<open>&SigAlg=<v>\<close>,
  each \<open><v>\<close> being the value as it stands in the raw query (of the last occurrence,
  when a name is repeated). The digest is computed over exactly that string: with a
  signature that decodes, the RSA algorithms return what \<open>rsa.VerifyPKCS1v15\<close> says
  of the SHA-1, respectively SHA-256, digest of that string and the decoded signature, and
  the DSA algorithms, for a signature \<open>{R, S}\<close> with no trailing bytes and positive
  \<open>R\<close> and \<open>S\<close>, succeed exactly when \<open>dsa.Verify\<close> accepts the digest of that string.
\<close>

theorem verifySignature_canonical_string:
  assumes ne: "kvs \<noteq> []"
    and wf: "\<forall>(k, v) \<in> set kvs. CHR ''&'' \<notin> set k \<and> CHR ''='' \<notin> set k
                                 \<and> CHR ''&'' \<notin> set v \<and> CHR ''='' \<notin> set v"
    and req: "map_of (rev kvs) ''SAMLRequest'' = Some req"
    and alg: "map_of (rev kvs) ''SigAlg'' = Some sigAlg"
    and canon: "canon = ''SAMLRequest='' @ req
                 @ (case map_of (rev kvs) ''RelayState'' of
                      None \<Rightarrow> []
                    | Some state \<Rightarrow> ''&RelayState='' @ state)
                 @ ''&SigAlg='' @ sigAlg"
    and raw: "rawQuery = strings_Join (map (\<lambda>(k, v). k @ ''='' @ v) kvs) ''&''"
  shows "signedBytes rawQuery = Inr canon
       \<and> verifySignature L rawQuery alg expectedSig sp
           = checkSignature L canon alg expectedSig sp
       \<and> (base64_DecodeString L expectedSig = Inr signature \<longrightarrow>
            (publicKey sp = rsa_PublicKey key \<longrightarrow>
               verifySignature L rawQuery ''http://www.w3.org/2000/09/xmldsig#rsa-sha1''
                   expectedSig sp
                 = rsa_VerifyPKCS1v15 L key crypto_SHA1 (sha1_Sum L canon) signature
             \<and> verifySignature L rawQuery ''http://www.w3.org/2001/04/xmldsig-more#rsa-sha256''
                   expectedSig sp
                 = rsa_VerifyPKCS1v15 L key crypto_SHA256 (sha256_Sum L canon) signature)
          \<and> (publicKey sp = dsa_PublicKey key
               \<and> asn1_Unmarshal L signature = Inr ((R, S), []) \<and> 0 < R \<and> 0 < S \<longrightarrow>
               verifySignature L rawQuery ''http://www.w3.org/2000/09/xmldsig#dsa-sha1''
                   expectedSig sp
                 = (if dsa_Verify L key (sha1_Sum L canon) R S then Inr ()
                    else Inl (errors_New ''DSA verification failure''))
             \<and> verifySignature L rawQuery ''http://www.w3.org/2009/xmldsig11#dsa-sha256''
                   expectedSig sp
                 = (if dsa_Verify L key (sha256_Sum L canon) R S then Inr ()
                    else Inl (errors_New ''DSA verification failure''))))"
proof -
  have sb: "signedBytes rawQuery = Inr canon"
    unfolding raw canon using signedBytes_pairs[OF ne wf]
    by (simp add: strings_Join_sigparts mapIndex_def req alg)
  then have vs: "verifySignature L rawQuery a expectedSig sp
                 = checkSignature L canon a expectedSig sp" for a
    by (simp add: verifySignature_def)
  have rsa: "verifySignature L rawQuery ''http://www.w3.org/2000/09/xmldsig#rsa-sha1''
                   expectedSig sp
                 = rsa_VerifyPKCS1v15 L key crypto_SHA1 (sha1_Sum L canon) signature
             \<and> verifySignature L rawQuery ''http://www.w3.org/2001/04/xmldsig-more#rsa-sha256''
                   expectedSig sp
                 = rsa_VerifyPKCS1v15 L key crypto_SHA256 (sha256_Sum L canon) signature"
    if "base64_DecodeString L expectedSig = Inr signature" "publicKey sp = rsa_PublicKey key"
    using that by (simp only: vs checkSignature_rsa_sha1 checkSignature_rsa_sha256 simp_thms)
  have dsa: "verifySignature L rawQuery ''http://www.w3.org/2000/09/xmldsig#dsa-sha1''
                   expectedSig sp
                 = (if dsa_Verify L key (sha1_Sum L canon) R S then Inr ()
                    else Inl (errors_New ''DSA verification failure''))
             \<and> verifySignature L rawQuery ''http://www.w3.org/2009/xmldsig11#dsa-sha256''
                   expectedSig sp
                 = (if dsa_Verify L key (sha256_Sum L canon) R S then Inr ()
                    else Inl (errors_New ''DSA verification failure''))"
    if "base64_DecodeString L expectedSig = Inr signature"
       "publicKey sp = dsa_PublicKey key \<and> asn1_Unmarshal L signature = Inr ((R, S), [])
        \<and> 0 < R \<and> 0 < S"
    using that
    by (simp only: vs checkSignature_dsa_sha1 checkSignature_dsa_sha256 verifyDSA_verify
                   sha1Sum_def sha256Sum_def simp_thms)
  from sb vs rsa dsa show ?thesis by blast
qed


theorem verifySignature_canonical_string_witness:
  "signedBytes ''SigAlg=http%3A%2F%2Fwww.w3.org%2F2001%2F04%2Fxmldsig-more%23rsa-sha256&RelayState=st%3D&SAMLRequest=abc&Signature=c2ln''
     = Inr ''SAMLRequest=abc&RelayState=st%3D&SigAlg=http%3A%2F%2Fwww.w3.org%2F2001%2F04%2Fxmldsig-more%23rsa-sha256''
   \<and> verifySignature sampleLibrary
        ''SigAlg=http%3A%2F%2Fwww.w3.org%2F2001%2F04%2Fxmldsig-more%23rsa-sha256&RelayState=st%3D&SAMLRequest=abc&Signature=c2ln''
        ''http://www.w3.org/2001/04/xmldsig-more#rsa-sha256''
        ''SAMLRequest=abc&RelayState=st%3D'' sampleSP
     = Inr ()
   \<and> verifySignature sampleLibrary
        ''SigAlg=http%3A%2F%2Fwww.w3.org%2F2001%2F04%2Fxmldsig-more%23rsa-sha256&RelayState=st%3D&SAMLRequest=abc&Signature=c2ln''
        ''http://www.w3.org/2001/04/xmldsig-more#rsa-sha256''
        ''SigAlg=http%3A%2F%2Fwww.w3.org%2F'' sampleSP
     = Inl (errors_New ''crypto/rsa: verification error'')
   \<and> signedBytes ''Signature=c2ln&SAMLRequest=abc&SigAlg=dsa''
     = Inr ''SAMLRequest=abc&SigAlg=dsa''
   \<and> verifySignature sampleLibrary ''Signature=c2ln&SAMLRequest=abc&SigAlg=dsa''
        ''http://www.w3.org/2000/09/xmldsig#dsa-sha1'' ''::''
        (sampleSP\<lparr> publicKey := dsa_PublicKey ''key'' \<rparr>)
     = Inr ()"
  using verifySignature_canonical_string
          [where kvs = "[(''SigAlg'', ''http%3A%2F%2Fwww.w3.org%2F2001%2F04%2Fxmldsig-more%23rsa-sha256''),
                         (''RelayState'', ''st%3D''),
                         (''SAMLRequest'', ''abc''), (''Signature'', ''c2ln'')]"
             and req = "''abc''"
             and sigAlg = "''http%3A%2F%2Fwww.w3.org%2F2001%2F04%2Fxmldsig-more%23rsa-sha256''"
             and L = sampleLibrary and alg = "''rsa''"
             and expectedSig = "''SAMLRequest=abc&RelayState=st%3D''"
             and signature = "''SAMLRequest=abc&RelayState=st%3D''"
             and sp = sampleSP and key = "''key''" and R = 1 and S = 1,
           OF _ _ _ _ refl refl]
        verifySignature_canonical_string
          [where kvs = "[(''SigAlg'', ''http%3A%2F%2Fwww.w3.org%2F2001%2F04%2Fxmldsig-more%23rsa-sha256''),
                         (''RelayState'', ''st%3D''),
                         (''SAMLRequest'', ''abc''), (''Signature'', ''c2ln'')]"
             and req = "''abc''"
             and sigAlg = "''http%3A%2F%2Fwww.w3.org%2F2001%2F04%2Fxmldsig-more%23rsa-sha256''"
             and L = sampleLibrary and alg = "''rsa''"
             and expectedSig = "''SigAlg=http%3A%2F%2Fwww.w3.org%2F''"
             and signature = "''SigAlg=http%3A%2F%2Fwww.w3.org%2F''"
             and sp = sampleSP and key = "''key''" and R = 1 and S = 1,
           OF _ _ _ _ refl refl]
        verifySignature_canonical_string
          [where kvs = "[(''Signature'', ''c2ln''), (''SAMLRequest'', ''abc''),
                         (''SigAlg'', ''dsa'')]"
             and req = "''abc''" and sigAlg = "''dsa''"
             and L = sampleLibrary and alg = "''dsa''"
             and expectedSig = "''::''" and signature = "''::''"
             and sp = "sampleSP\<lparr> publicKey := dsa_PublicKey ''key'' \<rparr>"
             and key = "''key''" and R = 10 and S = 10,
           OF _ _ _ _ refl refl]
  by (simp add: sampleLibrary_def sampleSP_def)

text \<open>
  Claim C10. When some \<open>&\<close>-separated component of the raw query does not split at
  \<open>=\<close> into exactly two parts (a value with an unencoded \<open>=\<close>, a component without
  \<open>=\<close>, the empty query), \<open>verifySignature\<close> returns the error
  \<open>trouble validating signature on request\<close>, whatever the signature, the algorithm,
  the key and the library functions are.
\<close>

theorem verifySignature_malformed_component:
  assumes "\<exists>p \<in> set (strings_Split rawQuery CHR ''&'').
              length (strings_Split p CHR ''='') \<noteq> 2"
  shows "verifySignature L rawQuery alg expectedSig sp
         = Inl (errors_New ''trouble validating signature on request'')"
  using parseParams_bad_component[OF assms]
  by (simp add: verifySignature_def signedBytes_def)

theorem verifySignature_malformed_component_witness:
  "verifySignature sampleLibrary ''SAMLRequest=abc=&SigAlg=rsa&Signature=c2ln''
     ''http://www.w3.org/2000/09/xmldsig#rsa-sha1'' ''c2ln'' sampleSP
   = Inl (errors_New ''trouble validating signature on request'')
   \<and> verifySignature sampleLibrary ''SAMLRequest=abc&RelayState&SigAlg=rsa''
     ''http://www.w3.org/2000/09/xmldsig#rsa-sha1'' ''c2ln'' sampleSP
   = Inl (errors_New ''trouble validating signature on request'')"
  using verifySignature_malformed_component
          [of "''SAMLRequest=abc=&SigAlg=rsa&Signature=c2ln''" sampleLibrary
              "''http://www.w3.org/2000/09/xmldsig#rsa-sha1''" "''c2ln''" sampleSP]
        verifySignature_malformed_component
          [of "''SAMLRequest=abc&RelayState&SigAlg=rsa''" sampleLibrary
              "''http://www.w3.org/2000/09/xmldsig#rsa-sha1''" "''c2ln''" sampleSP]
  by simp

lemma checkSignature_unsupported:
  assumes "alg \<noteq> ''http://www.w3.org/2009/xmldsig11#dsa-sha256''"
      "alg \<noteq> ''http://www.w3.org/2000/09/xmldsig#dsa-sha1''"
      "alg \<noteq> ''http://www.w3.org/2000/09/xmldsig#rsa-sha1''"
      "alg \<noteq> ''http://www.w3.org/2001/04/xmldsig-more#rsa-sha256''"
  shows "checkSignature L sig alg expectedSig sp =
          (case base64_DecodeString L expectedSig of
             Inl err \<Rightarrow> Inl err
           | Inr signature \<Rightarrow> Inl (errors_New (''unsupported signature algorithm, '' @ alg)))"
  using assms by (simp add: checkSignature_def split: sum.splits)

lemma verifyDSA_trailing:
  assumes "asn1_Unmarshal L signature = Inr ((R, S), rest)" and "rest \<noteq> []"
  shows "verifyDSA L sp signature digest = Inl (errors_New ''trailing data after DSA signature'')"
  using assms by (simp add: verifyDSA_def)

lemma verifyDSA_nonpositive:
  assumes "asn1_Unmarshal L signature = Inr ((R, S), [])" and "R \<le> 0 \<or> S \<le> 0"
  shows "verifyDSA L sp signature digest
         = Inl (errors_New ''DSA signature contained zero or negative values'')"
  using assms by (simp add: verifyDSA_def)

lemma checkSignature_dsa:
  assumes alg: "alg = ''http://www.w3.org/2000/09/xmldsig#dsa-sha1''
              \<or> alg = ''http://www.w3.org/2009/xmldsig11#dsa-sha256''"
    and dec: "base64_DecodeString L expectedSig = Inr signature"
    and un: "asn1_Unmarshal L signature = Inr ((R, S), rest)"
  shows "rest \<noteq> [] \<Longrightarrow> checkSignature L sig alg expectedSig sp
            = Inl (errors_New ''trailing data after DSA signature'')"
    and "rest = [] \<Longrightarrow> R \<le> 0 \<or> S \<le> 0 \<Longrightarrow> checkSignature L sig alg expectedSig sp
            = Inl (errors_New ''DSA signature contained zero or negative values'')"
proof -
  from alg dec obtain digest where
    d: "checkSignature L sig alg expectedSig sp = verifyDSA L sp signature digest"
    using checkSignature_dsa_sha1[OF dec] checkSignature_dsa_sha256[OF dec] by metis
  show "rest \<noteq> [] \<Longrightarrow> checkSignature L sig alg expectedSig sp
            = Inl (errors_New ''trailing data after DSA signature'')"
    using d verifyDSA_trailing[OF un] by simp
  show "rest = [] \<Longrightarrow> R \<le> 0 \<or> S \<le> 0 \<Longrightarrow> checkSignature L sig alg expectedSig sp
            = Inl (errors_New ''DSA signature contained zero or negative values'')"
    using d verifyDSA_nonpositive un by simp
qed

lemma verifySignature_isl:
  "(\<And>sig. isl (checkSignature L sig alg expectedSig sp)) \<Longrightarrow>
   isl (verifySignature L rawQuery alg expectedSig sp)"
  by (simp add: verifySignature_def split: sum.splits)

text \<open>
  Claim C6, as amended. The query is parsed and the signature base64-decoded before
  the algorithm is looked at, so an unknown algorithm always makes \<open>verifySignature\<close>
  fail, and the failure is the unsupported-algorithm error whenever the query parses
  and the signature decodes. For the two DSA algorithms a decoded signature whose ASN.1
  decoding leaves trailing bytes, or has \<open>R \<le> 0\<close> or \<open>S \<le> 0\<close>, is always rejected,
  with the error of \<open>verifyDSA\<close> (trailing bytes are checked first) whenever the
  query parses.
\<close>

theorem verifySignature_error_conditions:
  "(alg \<notin> {''http://www.w3.org/2000/09/xmldsig#rsa-sha1'',
             ''http://www.w3.org/2001/04/xmldsig-more#rsa-sha256'',
             ''http://www.w3.org/2000/09/xmldsig#dsa-sha1'',
             ''http://www.w3.org/2009/xmldsig11#dsa-sha256''}
     \<longrightarrow> isl (verifySignature L rawQuery alg expectedSig sp)
       \<and> (signedBytes rawQuery = Inr sig \<and> base64_DecodeString L expectedSig = Inr signature
           \<longrightarrow> verifySignature L rawQuery alg expectedSig sp
                 = Inl (errors_New (''unsupported signature algorithm, '' @ alg))))
   \<and> (alg \<in> {''http://www.w3.org/2000/09/xmldsig#dsa-sha1'',
              ''http://www.w3.org/2009/xmldsig11#dsa-sha256''}
      \<and> base64_DecodeString L expectedSig = Inr signature
      \<and> asn1_Unmarshal L signature = Inr ((R, S), rest)
      \<and> (rest \<noteq> [] \<or> R \<le> 0 \<or> S \<le> 0)
     \<longrightarrow> isl (verifySignature L rawQuery alg expectedSig sp)
       \<and> (signedBytes rawQuery = Inr sig
           \<longrightarrow> verifySignature L rawQuery alg expectedSig sp
                 = Inl (errors_New (if rest \<noteq> [] then ''trailing data after DSA signature''
                          else ''DSA signature contained zero or negative values''))))"
    (is "(?unsupported \<longrightarrow> ?A) \<and> (?dsa \<longrightarrow> ?B)")
proof (rule conjI; rule impI)
  assume ?unsupported
  then have cs: "checkSignature L sig' alg expectedSig sp =
          (case base64_DecodeString L expectedSig of
             Inl err \<Rightarrow> Inl err
           | Inr signature \<Rightarrow> Inl (errors_New (''unsupported signature algorithm, '' @ alg)))"
    for sig'
    by (intro checkSignature_unsupported) simp_all
  have "isl (verifySignature L rawQuery alg expectedSig sp)"
    by (rule verifySignature_isl) (simp add: cs split: sum.splits)
  moreover have "verifySignature L rawQuery alg expectedSig sp
                 = Inl (errors_New (''unsupported signature algorithm, '' @ alg))"
    if "signedBytes rawQuery = Inr sig \<and> base64_DecodeString L expectedSig = Inr signature"
    using that by (simp add: verifySignature_def cs)
  ultimately show ?A by blast
next
  assume a: ?dsa
  then have alg: "alg = ''http://www.w3.org/2000/09/xmldsig#dsa-sha1''
              \<or> alg = ''http://www.w3.org/2009/xmldsig11#dsa-sha256''"
    and dec: "base64_DecodeString L expectedSig = Inr signature"
    and un: "asn1_Unmarshal L signature = Inr ((R, S), rest)"
    and bad: "rest \<noteq> [] \<or> R \<le> 0 \<or> S \<le> 0"
    by simp_all
  have cs: "checkSignature L sig' alg expectedSig sp
            = Inl (errors_New (if rest \<noteq> [] then ''trailing data after DSA signature''
                          else ''DSA signature contained zero or negative values''))" for sig'
    using checkSignature_dsa[OF alg dec un, of sig' sp] bad by (cases "rest = []") simp_all
  have "isl (verifySignature L rawQuery alg expectedSig sp)"
    by (rule verifySignature_isl) (simp only: cs sum.disc)
  moreover have "verifySignature L rawQuery alg expectedSig sp
                 = Inl (errors_New (if rest \<noteq> [] then ''trailing data after DSA signature''
                          else ''DSA signature contained zero or negative values''))"
    if "signedBytes rawQuery = Inr sig"
    using that by (simp only: verifySignature_def cs sum.case)
  ultimately show ?B by blast
qed


theorem verifySignature_error_conditions_witness:
  "verifySignature sampleLibrary ''SAMLRequest=abc&SigAlg=md5'' ''md5'' ''c2ln'' sampleSP
     = Inl (errors_New ''unsupported signature algorithm, md5'')
   \<and> verifySignature sampleLibrary ''SAMLRequest=abc&SigAlg=dsa''
       ''http://www.w3.org/2000/09/xmldsig#dsa-sha1'' ''12x'' sampleSP
     = Inl (errors_New ''trailing data after DSA signature'')
   \<and> verifySignature sampleLibrary ''SAMLRequest=abc&SigAlg=dsa''
       ''http://www.w3.org/2009/xmldsig11#dsa-sha256'' ''10'' sampleSP
     = Inl (errors_New ''DSA signature contained zero or negative values'')"
  using verifySignature_error_conditions
          [where alg = "''md5''" and L = sampleLibrary
             and rawQuery = "''SAMLRequest=abc&SigAlg=md5''" and expectedSig = "''c2ln''"
             and sp = sampleSP and sig = "''SAMLRequest=abc&SigAlg=md5''"
             and signature = "''c2ln''" and R = 1 and S = 1 and rest = "[]"]
        verifySignature_error_conditions
          [where alg = "''http://www.w3.org/2000/09/xmldsig#dsa-sha1''" and L = sampleLibrary
             and rawQuery = "''SAMLRequest=abc&SigAlg=dsa''" and expectedSig = "''12x''"
             and sp = sampleSP and sig = "''SAMLRequest=abc&SigAlg=dsa''"
             and signature = "''12x''" and R = 1 and S = 2 and rest = "''x''"]
        verifySignature_error_conditions
          [where alg = "''http://www.w3.org/2009/xmldsig11#dsa-sha256''" and L = sampleLibrary
             and rawQuery = "''SAMLRequest=abc&SigAlg=dsa''" and expectedSig = "''10''"
             and sp = sampleSP and sig = "''SAMLRequest=abc&SigAlg=dsa''"
             and signature = "''10''" and R = 1 and S = 0 and rest = "[]"]
  by (simp add: signedBytes_def sigparts_def mapIndex_def sampleLibrary_def)

text \<open>
  The claim as stated fails: with an unknown algorithm, a query component without \<open>=\<close>
  gives the parser's error and an undecodable signature gives the decoder's error, not
  the unsupported-algorithm error.
\<close>

theorem verifySignature_error_conditions_counterexample:
  "''md5'' \<notin> {''http://www.w3.org/2000/09/xmldsig#rsa-sha1'',
               ''http://www.w3.org/2001/04/xmldsig-more#rsa-sha256'',
               ''http://www.w3.org/2000/09/xmldsig#dsa-sha1'',
               ''http://www.w3.org/2009/xmldsig11#dsa-sha256''}
   \<and> verifySignature sampleLibrary ''SAMLRequest'' ''md5'' ''c2ln'' sampleSP
       = Inl (errors_New ''trouble validating signature on request'')
   \<and> verifySignature sampleLibrary ''SAMLRequest'' ''md5'' ''c2ln'' sampleSP
       \<noteq> Inl (errors_New (''unsupported signature algorithm, '' @ ''md5''))
   \<and> verifySignature sampleLibrary ''SAMLRequest=abc&SigAlg=md5'' ''md5'' ''!'' sampleSP
       = Inl (errors_New ''illegal base64 data'')
   \<and> verifySignature sampleLibrary ''SAMLRequest=abc&SigAlg=md5'' ''md5'' ''!'' sampleSP
       \<noteq> Inl (errors_New (''unsupported signature algorithm, '' @ ''md5''))"
  by (simp add: verifySignature_def signedBytes_def checkSignature_def sampleLibrary_def)

section \<open>Claims about the choice of the assertion consumer service\<close>

lemma find_append:
  "find P (xs @ ys) = (case find P xs of None \<Rightarrow> find P ys | Some a \<Rightarrow> Some a)"
  by (induction xs) auto

lemma acsLoop_Cons:
  "acsLoop (a # rest) request i acs =
     (if matchesRequest request a then Some i
      else if IsDefault a then acsLoop rest request (i + 1) (Some i)
      else acsLoop rest request (i + 1) acs)"
  by (simp add: matchesRequest_def)

declare acsLoop.simps(2) [simp del]

lemma acsLoop_entry:
  "(\<And>n. acs = Some n \<Longrightarrow> n < length pre) \<Longrightarrow>
   map_option (\<lambda>n. (pre @ xs) ! n) (acsLoop xs request (length pre) acs)
   = (case find (matchesRequest request) xs of
        Some a \<Rightarrow> Some a
      | None \<Rightarrow> (case find IsDefault (rev xs) of
                   Some d \<Rightarrow> Some d
                 | None \<Rightarrow> map_option (\<lambda>n. pre ! n) acs))"
proof (induction xs arbitrary: pre acs)
  case Nil
  then show ?case by (cases acs) (auto simp: nth_append)
next
  case (Cons x xs)
  show ?case
  proof (cases "matchesRequest request x")
    case True
    then show ?thesis by (simp add: acsLoop_Cons)
  next
    case nomatch: False
    show ?thesis
    proof (cases "IsDefault x")
      case True
      have "map_option (\<lambda>n. ((pre @ [x]) @ xs) ! n) (acsLoop xs request (length (pre @ [x])) (Some (length pre)))
            = (case find (matchesRequest request) xs of
                 Some a \<Rightarrow> Some a
               | None \<Rightarrow> (case find IsDefault (rev xs) of
                   Some d \<Rightarrow> Some d
                 | None \<Rightarrow> map_option (\<lambda>n. (pre @ [x]) ! n) (Some (length pre))))"
        by (rule Cons.IH) simp
      with nomatch True show ?thesis
        by (simp add: acsLoop_Cons find_append split: option.splits)
    next
      case False
      have "map_option (\<lambda>n. ((pre @ [x]) @ xs) ! n) (acsLoop xs request (length (pre @ [x])) acs)
            = (case find (matchesRequest request) xs of
                 Some a \<Rightarrow> Some a
               | None \<Rightarrow> (case find IsDefault (rev xs) of
                   Some d \<Rightarrow> Some d
                 | None \<Rightarrow> map_option (\<lambda>n. (pre @ [x]) ! n) acs))"
        by (rule Cons.IH) (use Cons.prems in force)
      moreover have "map_option (\<lambda>n. (pre @ [x]) ! n) acs = map_option (\<lambda>n. pre ! n) acs"
        using Cons.prems by (cases acs) (auto simp: nth_append)
      ultimately show ?thesis using nomatch False
        by (simp add: acsLoop_Cons find_append split: option.splits)
    qed
  qed
qed

lemma selectACS_entry:
  "map_option (\<lambda>n. services ! n) (selectACS services request)
   = (case find (matchesRequest request) services of
        Some a \<Rightarrow> Some a
      | None \<Rightarrow> find IsDefault (rev services))"
  using acsLoop_entry[of None "[]" services request]
  by (simp add: selectACS_def split: option.splits)

lemma acsLoop_range:
  "acsLoop xs request i acs = Some n \<Longrightarrow> acs = Some n \<or> (i \<le> n \<and> n < i + length xs)"
  by (induction xs arbitrary: i acs) (fastforce simp: acsLoop_Cons split: if_splits)+

lemma selectACS_range: "selectACS services request = Some n \<Longrightarrow> n < length services"
  using acsLoop_range[of services request 0 None n] by (simp add: selectACS_def)

lemma acsLoop_first_match:
  "n < length xs \<Longrightarrow> matchesRequest request (xs ! n) \<Longrightarrow>
   (\<And>m. m < n \<Longrightarrow> \<not> matchesRequest request (xs ! m)) \<Longrightarrow>
   acsLoop xs request i acs = Some (i + n)"
proof (induction xs arbitrary: i acs n)
  case Nil
  then show ?case by simp
next
  case (Cons x xs)
  show ?case
  proof (cases n)
    case 0
    with Cons.prems show ?thesis by (simp add: acsLoop_Cons)
  next
    case (Suc k)
    with Cons.prems have nm: "\<not> matchesRequest request x" by force
    have "acsLoop xs request (Suc i) acs' = Some (Suc i + k)" for acs'
      using Cons.prems Suc by (intro Cons.IH) force+
    with nm Suc show ?thesis by (simp add: acsLoop_Cons)
  qed
qed

lemma selectACS_first_match:
  "n < length services \<Longrightarrow> matchesRequest request (services ! n) \<Longrightarrow>
   (\<And>m. m < n \<Longrightarrow> \<not> matchesRequest request (services ! m)) \<Longrightarrow>
   selectACS services request = Some n"
  using acsLoop_first_match[of n services request 0 None] by (simp add: selectACS_def)

lemma find_unique:
  assumes "\<And>a b. a \<in> set xs \<Longrightarrow> b \<in> set xs \<Longrightarrow> P a \<Longrightarrow> P b \<Longrightarrow> a = b"
    and "set xs = set ys"
  shows "find P xs = find P ys"
proof (cases "find P xs")
  case None
  then have "find P ys = None" using assms(2) by (simp add: find_None_iff)
  with None show ?thesis by simp
next
  case (Some a)
  then have a: "a \<in> set xs" "P a" by (auto simp: find_Some_iff)
  then have "find P ys \<noteq> None" using assms(2) by (auto simp: find_None_iff)
  then obtain b where b: "find P ys = Some b" by blast
  then have "b \<in> set ys" "P b" by (auto simp: find_Some_iff)
  with a assms have "a = b" by blast
  with Some b show ?thesis by simp
qed

lemma selectACS_swap:
  assumes x: "\<not> IsDefault x" and y: "\<not> IsDefault y"
    and uniq: "\<And>a b. a \<in> set (pre @ x # mid @ y # post) \<Longrightarrow> b \<in> set (pre @ x # mid @ y # post)
                 \<Longrightarrow> matchesRequest request a \<Longrightarrow> matchesRequest request b \<Longrightarrow> a = b"
  shows "map_option (\<lambda>n. (pre @ y # mid @ x # post) ! n) (selectACS (pre @ y # mid @ x # post) request)
       = map_option (\<lambda>n. (pre @ x # mid @ y # post) ! n) (selectACS (pre @ x # mid @ y # post) request)"
proof -
  have "find (matchesRequest request) (pre @ x # mid @ y # post)
        = find (matchesRequest request) (pre @ y # mid @ x # post)"
    by (rule find_unique[OF uniq]) auto
  moreover have "find IsDefault (rev (pre @ x # mid @ y # post))
               = find IsDefault (rev (pre @ y # mid @ x # post))"
    using x y by (simp add: find_append split: option.splits)
  ultimately show ?thesis by (simp only: selectACS_entry)
qed

text \<open>
  Claim C1, as amended. The loop of \<open>validateAuthRequest\<close> chooses the first entry,
  in metadata order, whose \<open>Index\<close> is the request's index or whose \<open>Location\<close> is
  the request's URL; when no entry matches, it chooses the last entry with
  \<open>IsDefault\<close>. So an entry with the request's index is chosen whenever no earlier
  entry matches the index or the URL, whether or not an earlier entry is a default.
  Exchanging two non-default entries does not change the chosen entry when all entries
  that match the request are the same entry. For a registered issuer,
  \<open>validateAuthRequest\<close> fails when the loop chooses nothing, fails when the request
  carries a URL other than the chosen location, and otherwise verifies the signature
  with the request's URL set to the chosen location.
\<close>

theorem selectACS_precedence:
  "map_option (\<lambda>k. services ! k) (selectACS services request)
     = (case find (matchesRequest request) services of
          Some a \<Rightarrow> Some a
        | None \<Rightarrow> find IsDefault (rev services))
   \<and> (n < length services \<and> matchesRequest request (services ! n)
        \<and> (\<forall>m < n. \<not> matchesRequest request (services ! m))
      \<longrightarrow> selectACS services request = Some n)
   \<and> (services = pre @ x # mid @ y # post \<and> \<not> IsDefault x \<and> \<not> IsDefault y
        \<and> (\<forall>a \<in> set services. \<forall>b \<in> set services.
              matchesRequest request a \<and> matchesRequest request b \<longrightarrow> a = b)
      \<longrightarrow> map_option (\<lambda>k. (pre @ y # mid @ x # post) ! k)
            (selectACS (pre @ y # mid @ x # post) request)
          = map_option (\<lambda>k. services ! k) (selectACS services request))
   \<and> (RequestAbstractType.Issuer request \<noteq> [] \<and> sps (RequestAbstractType.Issuer request) = Some sp
        \<and> AssertionConsumerServices sp = services
      \<longrightarrow> (case selectACS services request of
            None \<Rightarrow>
              validateAuthRequest L sps request r
              = (Inl (errors_New ''unable to determine assertion consumer service''), request)
          | Some k \<Rightarrow>
              k < length services
              \<and> validateAuthRequest L sps request r
                = (if saml_AuthnRequest.AssertionConsumerServiceURL request = []
                      \<or> saml_AuthnRequest.AssertionConsumerServiceURL request = Location (services ! k)
                   then (verifySignature L (URL_RawQuery r) (Values_Get (Form r) ''SigAlg'')
                           (Values_Get (Form r) ''Signature'') sp,
                         request\<lparr> saml_AuthnRequest.AssertionConsumerServiceURL := Location (services ! k) \<rparr>)
                   else (Inl (errors_New
                           ''assertion consumer location in request does not match metadata''),
                         request))))"
  (is "?entry \<and> (?first_hyp \<longrightarrow> ?first) \<and> (?swap_hyp \<longrightarrow> ?swap) \<and> (?val_hyp \<longrightarrow> ?val)")
proof (intro conjI impI)
  show ?entry by (rule selectACS_entry)
next
  assume ?first_hyp
  then show ?first by (intro selectACS_first_match) auto
next
  assume h: ?swap_hyp
  then have "map_option (\<lambda>k. (pre @ y # mid @ x # post) ! k)
               (selectACS (pre @ y # mid @ x # post) request)
             = map_option (\<lambda>k. (pre @ x # mid @ y # post) ! k)
               (selectACS (pre @ x # mid @ y # post) request)"
    by (intro selectACS_swap) blast+
  with h show ?swap by simp
next
  assume h: ?val_hyp
  show ?val
  proof (cases "selectACS services request")
    case None
    with h show ?thesis by (simp add: validateAuthRequest_def)
  next
    case (Some k)
    with h selectACS_range[OF Some] show ?thesis
      by (auto simp add: validateAuthRequest_def Let_def)
  qed
qed

theorem selectACS_precedence_witness:
  "selectACS [acsC, acsA, acsB] (sampleRequest\<lparr> saml_AuthnRequest.AssertionConsumerServiceURL := [] \<rparr>) = Some 2
   \<and> map_option (\<lambda>k. [acsC, acsB, acsA] ! k)
        (selectACS [acsC, acsB, acsA] (sampleRequest\<lparr> saml_AuthnRequest.AssertionConsumerServiceURL := [] \<rparr>))
     = Some acsB
   \<and> validateAuthRequest sampleLibrary
        [''https://sp.example/'' \<mapsto> sampleSP\<lparr> AssertionConsumerServices := [acsC, acsA, acsB] \<rparr>]
        (sampleRequest\<lparr> saml_AuthnRequest.AssertionConsumerServiceURL := [] \<rparr>)
        sampleHTTP
     = (verifySignature sampleLibrary ''SAMLRequest=abc&SigAlg=rsa'' [] []
          (sampleSP\<lparr> AssertionConsumerServices := [acsC, acsA, acsB] \<rparr>),
        sampleRequest\<lparr> saml_AuthnRequest.AssertionConsumerServiceURL := ''https://sp.example/b'' \<rparr>)"
proof -
  let ?S = "[acsC, acsA, acsB]"
  let ?R = "sampleRequest\<lparr> saml_AuthnRequest.AssertionConsumerServiceURL := [] \<rparr>"
  let ?sp = "sampleSP\<lparr> AssertionConsumerServices := ?S \<rparr>"
  note t = selectACS_precedence
          [where services = ?S and request = ?R
             and n = 2 and pre = "[acsC]" and x = acsA and mid = "[]" and y = acsB
             and post = "[]" and sps = "[''https://sp.example/'' \<mapsto> ?sp]" and sp = ?sp
             and L = sampleLibrary
             and r = "sampleHTTP"]
  have m: "matchesRequest ?R acsB" "\<not> matchesRequest ?R acsA" "\<not> matchesRequest ?R acsC"
    by (simp_all add: matchesRequest_def acsA_def acsB_def acsC_def sampleRequest_def)
  have nd: "\<not> IsDefault acsA" "\<not> IsDefault acsB"
    by (simp_all add: acsA_def acsB_def)
  have sel: "selectACS ?S ?R = Some 2"
    using t m by (simp add: less_2_cases_iff all_conj_distrib)
  have swap: "map_option (\<lambda>k. [acsC, acsB, acsA] ! k) (selectACS [acsC, acsB, acsA] ?R)
              = map_option (\<lambda>k. ?S ! k) (selectACS ?S ?R)"
    using t m nd by simp
  have iss: "RequestAbstractType.Issuer ?R = ''https://sp.example/''" "saml_AuthnRequest.AssertionConsumerServiceURL ?R = []"
    "Location acsB = ''https://sp.example/b''"
    by (simp_all add: sampleRequest_def acsB_def)
  have val: "validateAuthRequest sampleLibrary [''https://sp.example/'' \<mapsto> ?sp] ?R
               sampleHTTP
             = (verifySignature sampleLibrary ''SAMLRequest=abc&SigAlg=rsa'' [] [] ?sp,
                ?R\<lparr> saml_AuthnRequest.AssertionConsumerServiceURL := ''https://sp.example/b'' \<rparr>)"
    using t sel iss by (simp add: Values_Get_def sampleHTTP_def)
  from sel swap val show ?thesis by simp
qed

text \<open>
  The claim as stated fails. The request names index 1, carried by the second entry,
  but the first entry has the request's URL and is chosen; exchanging these two
  non-default entries with distinct indices changes the chosen entry; and of two
  default entries the last one is chosen, not the first.
\<close>

theorem selectACS_precedence_counterexample:
  "Index ([acsA, acsB] ! 1) = saml_AuthnRequest.AssertionConsumerServiceIndex sampleRequest
   \<and> Location ([acsA, acsB] ! 0) = saml_AuthnRequest.AssertionConsumerServiceURL sampleRequest
   \<and> selectACS [acsA, acsB] sampleRequest = Some 0
   \<and> \<not> IsDefault acsA \<and> \<not> IsDefault acsB \<and> Index acsA \<noteq> Index acsB
   \<and> map_option (\<lambda>k. [acsA, acsB] ! k) (selectACS [acsA, acsB] sampleRequest) = Some acsA
   \<and> map_option (\<lambda>k. [acsB, acsA] ! k) (selectACS [acsB, acsA] sampleRequest) = Some acsB
   \<and> acsA \<noteq> acsB
   \<and> IsDefault acsC \<and> IsDefault acsD
   \<and> selectACS [acsC, acsD] sampleRequest = Some 1"
  by (simp add: selectACS_def acsLoop.simps acsA_def acsB_def acsC_def acsD_def
        sampleRequest_def)

section \<open>Claims about the artifact and the registry\<close>

declare copyLoop.simps [simp del]

lemma copyLoop_eq:
  "i \<le> hi \<Longrightarrow> hi \<le> length artifact \<Longrightarrow> off \<le> i \<Longrightarrow> hi - off \<le> length source \<Longrightarrow>
   copyLoop i hi off source artifact
   = take i artifact @ take (hi - i) (drop (i - off) source) @ drop hi artifact"
proof (induction i hi off source artifact rule: copyLoop.induct)
  case (1 i hi off source artifact)
  show ?case
  proof (cases "i < hi")
    case False
    with "1.prems" show ?thesis by (subst copyLoop.simps) simp
  next
    case True
    let ?v = "source ! (i - off)"
    have src: "i - off < length source" using True "1.prems" by linarith
    have "copyLoop (i + 1) hi off source (artifact[i := ?v])
          = take (i + 1) (artifact[i := ?v]) @ take (hi - (i + 1)) (drop (i + 1 - off) source)
            @ drop hi (artifact[i := ?v])"
      using True "1.prems" by (intro "1.IH") simp_all
    moreover have "take (i + 1) (artifact[i := ?v]) = take i artifact @ [?v]"
      using True "1.prems" by (simp add: take_Suc_conv_app_nth)
    moreover have "drop hi (artifact[i := ?v]) = drop hi artifact"
      using True by simp
    moreover have "take (hi - i) (drop (i - off) source)
                   = ?v # take (hi - (i + 1)) (drop (i + 1 - off) source)"
    proof -
      have "drop (i - off) source = ?v # drop (Suc (i - off)) source"
        using src by (simp add: Cons_nth_drop_Suc)
      moreover have "Suc (i - off) = i + 1 - off" using "1.prems" by simp
      moreover have "hi - i = Suc (hi - (i + 1))" using True by simp
      ultimately show ?thesis by simp
    qed
    ultimately show ?thesis using True by (subst copyLoop.simps) simp
  qed
qed

lemma artifactBytes_eq:
  assumes "length (sha1_Sum L eid) = 20" and "length (sha1_Sum L uuid) = 20"
  shows "artifactBytes L uuid eid
         = [CHR 0x00, CHR 0x04, CHR 0x00, CHR 0x01] @ sha1_Sum L eid @ sha1_Sum L uuid"
proof -
  let ?a0 = "(replicate 44 (CHR 0x00))[1 := CHR 0x04, 3 := CHR 0x01]"
  have a0: "?a0 = [CHR 0x00, CHR 0x04, CHR 0x00, CHR 0x01] @ replicate 40 (CHR 0x00)"
    by (simp add: numeral_eq_Suc)
  have l1: "copyLoop 4 24 4 (sha1_Sum L eid) ?a0
        = [CHR 0x00, CHR 0x04, CHR 0x00, CHR 0x01] @ sha1_Sum L eid @ replicate 20 (CHR 0x00)"
    unfolding a0 using assms(1) by (subst copyLoop_eq) simp_all
  have "copyLoop 24 44 24 (sha1_Sum L uuid)
          ([CHR 0x00, CHR 0x04, CHR 0x00, CHR 0x01] @ sha1_Sum L eid @ replicate 20 (CHR 0x00))
        = [CHR 0x00, CHR 0x04, CHR 0x00, CHR 0x01] @ sha1_Sum L eid @ sha1_Sum L uuid"
    using assms by (subst copyLoop_eq) simp_all
  with l1 show ?thesis by (simp only: artifactBytes_def Let_def)
qed

text \<open>
  Claim C4. For every entity ID, the string \<open>getArtifact\<close> returns is the base64
  encoding of exactly 44 bytes: \<open>0x00 0x04\<close>, then \<open>0x00 0x01\<close>, then the 20 bytes of
  the SHA-1 of the entity ID, then the 20 bytes of the SHA-1 of the string of the UUID
  generated in the call. The next call draws the next UUID, and its last 20 bytes
  differ from those of this call whenever the digests of the two UUID strings differ.
  (That \<open>sha1.Sum\<close> returns 20 bytes is its Go type.)
\<close>

theorem getArtifact_layout:
  assumes "length (sha1_Sum L eid) = 20"
    and "length (sha1_Sum L (fresh wd (drawn wd))) = 20"
  shows "\<exists>bytes.
           fst (getArtifact L eid wd) = base64_EncodeToString L bytes
         \<and> length bytes = 44
         \<and> take 2 bytes = [CHR 0x00, CHR 0x04]
         \<and> take 2 (drop 2 bytes) = [CHR 0x00, CHR 0x01]
         \<and> take 20 (drop 4 bytes) = sha1_Sum L eid
         \<and> drop 24 bytes = sha1_Sum L (fresh wd (drawn wd))
         \<and> (length (sha1_Sum L (fresh wd (drawn wd + 1))) = 20
              \<and> sha1_Sum L (fresh wd (drawn wd + 1)) \<noteq> sha1_Sum L (fresh wd (drawn wd))
            \<longrightarrow> (\<exists>bytes'.
                   fst (getArtifact L eid (snd (getArtifact L eid wd)))
                     = base64_EncodeToString L bytes'
                 \<and> length bytes' = 44
                 \<and> drop 24 bytes' \<noteq> drop 24 bytes))"
proof -
  have eq: "artifactBytes L u eid
            = [CHR 0x00, CHR 0x04, CHR 0x00, CHR 0x01] @ sha1_Sum L eid @ sha1_Sum L u"
    if "length (sha1_Sum L u) = 20" for u
    using assms(1) that by (rule artifactBytes_eq)
  let ?bytes = "artifactBytes L (fresh wd (drawn wd)) eid"
  let ?bytes' = "artifactBytes L (fresh wd (drawn wd + 1)) eid"
  have first: "fst (getArtifact L eid wd) = base64_EncodeToString L ?bytes"
    by (simp add: getArtifact_def uuid_New_String_def)
  have second: "fst (getArtifact L eid (snd (getArtifact L eid wd)))
                = base64_EncodeToString L ?bytes'"
    by (simp add: getArtifact_def uuid_New_String_def)
  have "length ?bytes = 44" "take 2 ?bytes = [CHR 0x00, CHR 0x04]"
    "take 2 (drop 2 ?bytes) = [CHR 0x00, CHR 0x01]"
    "take 20 (drop 4 ?bytes) = sha1_Sum L eid"
    "drop 24 ?bytes = sha1_Sum L (fresh wd (drawn wd))"
    using assms by (simp_all add: eq)
  moreover have "length ?bytes' = 44 \<and> drop 24 ?bytes' \<noteq> drop 24 ?bytes"
    if "length (sha1_Sum L (fresh wd (drawn wd + 1))) = 20
        \<and> sha1_Sum L (fresh wd (drawn wd + 1)) \<noteq> sha1_Sum L (fresh wd (drawn wd))"
    using that assms by (simp add: eq)
  ultimately show ?thesis using first second by blast
qed

theorem getArtifact_layout_witness:
  "\<exists>bytes bytes'.
     fst (getArtifact sampleLibrary ''http://localhost:9443/'' sampleWorld)
       = base64_EncodeToString sampleLibrary bytes
   \<and> length bytes = 44
   \<and> take 4 bytes = [CHR 0x00, CHR 0x04, CHR 0x00, CHR 0x01]
   \<and> fst (getArtifact sampleLibrary ''http://localhost:9443/''
             (snd (getArtifact sampleLibrary ''http://localhost:9443/'' sampleWorld)))
       = base64_EncodeToString sampleLibrary bytes'
   \<and> drop 24 bytes' \<noteq> drop 24 bytes"
proof -
  have len: "length (sha1_Sum sampleLibrary ''http://localhost:9443/'') = 20"
    "length (sha1_Sum sampleLibrary (fresh sampleWorld (drawn sampleWorld))) = 20"
    "length (sha1_Sum sampleLibrary (fresh sampleWorld (drawn sampleWorld + 1))) = 20"
    by (simp_all add: sampleLibrary_def sampleWorld_def)
  have ne: "sha1_Sum sampleLibrary (fresh sampleWorld (drawn sampleWorld + 1))
            \<noteq> sha1_Sum sampleLibrary (fresh sampleWorld (drawn sampleWorld))"
    by (simp add: sampleLibrary_def sampleWorld_def)
  from getArtifact_layout[OF len(1) len(2)] obtain bytes where b:
    "fst (getArtifact sampleLibrary ''http://localhost:9443/'' sampleWorld)
       = base64_EncodeToString sampleLibrary bytes"
    "length bytes = 44"
    "take 2 bytes = [CHR 0x00, CHR 0x04]"
    "take 2 (drop 2 bytes) = [CHR 0x00, CHR 0x01]"
    "length (sha1_Sum sampleLibrary (fresh sampleWorld (drawn sampleWorld + 1))) = 20
       \<and> sha1_Sum sampleLibrary (fresh sampleWorld (drawn sampleWorld + 1))
         \<noteq> sha1_Sum sampleLibrary (fresh sampleWorld (drawn sampleWorld))
     \<longrightarrow> (\<exists>bytes'.
            fst (getArtifact sampleLibrary ''http://localhost:9443/''
                   (snd (getArtifact sampleLibrary ''http://localhost:9443/'' sampleWorld)))
              = base64_EncodeToString sampleLibrary bytes'
          \<and> length bytes' = 44
          \<and> drop 24 bytes' \<noteq> drop 24 bytes)"
    by blast
  from b(5) len(3) ne obtain bytes' where b':
    "fst (getArtifact sampleLibrary ''http://localhost:9443/''
            (snd (getArtifact sampleLibrary ''http://localhost:9443/'' sampleWorld)))
       = base64_EncodeToString sampleLibrary bytes'"
    "drop 24 bytes' \<noteq> drop 24 bytes"
    by blast
  have "take 4 bytes = take 2 bytes @ take 2 (drop 2 bytes)"
    by (metis add_2_eq_Suc' numeral_Bit0 take_add)
  with b(3,4) have "take 4 bytes = [CHR 0x00, CHR 0x04, CHR 0x00, CHR 0x01]" by simp
  with b(1,2) b' show ?thesis by blast
qed

text \<open>
  Claim C3. The bootstrap registers a provider as soon as its certificate decodes and
  parses; the kind of the key is never looked at, although the field is documented as
  holding an RSA or DSA key and \<open>verifySignature\<close> asserts the kind without a check.
  The theorem runs the code on such a provider: a certificate with a key that is not
  an RSA key is registered, and a request that names an RSA algorithm then ends in the
  panic of the failed type assertion.
\<close>

theorem configureSPs_registers_any_key:
  assumes "base64_DecodeString L (Certificate sp) = Inr block"
    and "x509_ParseCertificate L block = Inr key"
    and "\<forall>k. key \<noteq> rsa_PublicKey k"
    and "signedBytes rawQuery = Inr sig"
    and "base64_DecodeString L expectedSig = Inr signature"
  shows "configureSPs L [sp] = Inr [EntityID sp \<mapsto> sp\<lparr> publicKey := key \<rparr>]
       \<and> verifySignature L rawQuery ''http://www.w3.org/2000/09/xmldsig#rsa-sha1'' expectedSig
           (sp\<lparr> publicKey := key \<rparr>)
         = Inl (Panic ''interface conversion: interface {} is not *rsa.PublicKey'')"
proof -
  have "parseCertificate L sp = Inr (sp\<lparr> publicKey := key \<rparr>)"
    using assms(1,2) by (simp add: parseCertificate_def)
  then have reg: "configureSPs L [sp] = Inr [EntityID sp \<mapsto> sp\<lparr> publicKey := key \<rparr>]"
    by (simp add: configureSPs_def)
  have "checkSignature L sig ''http://www.w3.org/2000/09/xmldsig#rsa-sha1'' expectedSig
          (sp\<lparr> publicKey := key \<rparr>)
        = Inl (Panic ''interface conversion: interface {} is not *rsa.PublicKey'')"
    using assms(3,5) by (cases key) (simp_all add: checkSignature_def)
  with assms(4) reg show ?thesis by (simp add: verifySignature_def)
qed

theorem configureSPs_registers_any_key_witness:
  "configureSPs sampleLibrary [sampleSP\<lparr> Certificate := ''Ekey'', publicKey := nil_PublicKey \<rparr>]
     = Inr [''https://sp.example/'' \<mapsto>
              sampleSP\<lparr> Certificate := ''Ekey'', publicKey := ecdsa_PublicKey ''key'' \<rparr>]
   \<and> verifySignature sampleLibrary ''SAMLRequest=abc&SigAlg=rsa&Signature=c2ln''
       ''http://www.w3.org/2000/09/xmldsig#rsa-sha1'' ''c2ln''
       (sampleSP\<lparr> Certificate := ''Ekey'', publicKey := ecdsa_PublicKey ''key'' \<rparr>)
     = Inl (Panic ''interface conversion: interface {} is not *rsa.PublicKey'')"
  using configureSPs_registers_any_key
          [where L = sampleLibrary
             and sp = "sampleSP\<lparr> Certificate := ''Ekey'', publicKey := nil_PublicKey \<rparr>"
             and block = "''Ekey''" and key = "ecdsa_PublicKey ''key''"
             and rawQuery = "''SAMLRequest=abc&SigAlg=rsa&Signature=c2ln''"
             and sig = "''SAMLRequest=abc&SigAlg=rsa''"
             and expectedSig = "''c2ln''" and signature = "''c2ln''"]
  by (simp add: sampleLibrary_def sampleSP_def signedBytes_def sigparts_def mapIndex_def)

section \<open>Claim about the LDAP search filter\<close>

lemma searchRequests_append:
  "searchRequests (xs @ ys) = searchRequests xs @ searchRequests ys"
  by (induction xs rule: searchRequests.induct) simp_all

lemma send_simps:
  "sent (send op D) = sent D @ [op]" "dial (send op D) = dial D"
  "simpleBind (send op D) = simpleBind D" "search (send op D) = search D"
  "ldap_CompileFilter (send op D) = ldap_CompileFilter D"
  by (simp_all add: send_def)

lemma getConn_sent:
  "\<exists>ops. sent (snd (getConn client username password D)) = sent D @ ops
         \<and> searchRequests ops = []
         \<and> dial (snd (getConn client username password D)) = dial D
         \<and> simpleBind (snd (getConn client username password D)) = simpleBind D
         \<and> search (snd (getConn client username password D)) = search D
         \<and> ldap_CompileFilter (snd (getConn client username password D))
           = ldap_CompileFilter D"
  by (auto simp: getConn_def Let_def send_simps split: option.splits)

lemma getConn_ok:
  "isl (fst (getConn client username password D))
   \<longleftrightarrow> \<not> (dial D (Addr client) = None \<and> password \<noteq> []
          \<and> simpleBind D username password = None)"
  by (auto simp: getConn_def Let_def send_simps split: option.splits)

lemma bindEntries_sent:
  "\<exists>ops. sent (snd (bindEntries client password attributes found D)) = sent D @ ops
         \<and> searchRequests ops = []"
proof (induction found arbitrary: D)
  case Nil
  then show ?case by simp
next
  case (Cons entry rest)
  obtain res D1 where g: "getConn client (DN entry) password D = (res, D1)"
    by (cases "getConn client (DN entry) password D")
  from getConn_sent[of client "DN entry" password D] g obtain ops1 where
    o1: "sent D1 = sent D @ ops1" "searchRequests ops1 = []" by auto
  show ?case
  proof (cases res)
    case (Inl err)
    from Cons.IH[of D1] obtain ops2 where
      "sent (snd (bindEntries client password attributes rest D1)) = sent D1 @ ops2"
      "searchRequests ops2 = []" by blast
    with o1 g Inl show ?thesis
      by (intro exI[of _ "ops1 @ ops2"]) (simp add: searchRequests_append)
  next
    case (Inr conn)
    with o1 g show ?thesis
      by (intro exI[of _ "ops1 @ [OpClose]"]) (simp add: searchRequests_append send_simps)
  qed
qed

lemma sendRequest_sent:
  "\<exists>ops. sent (snd (sendRequest client request D)) = sent D @ ops
         \<and> searchRequests ops
           = (if dial D (Addr client) = None \<and> BindDNCredential client \<noteq> []
                 \<and> simpleBind D (BindDN client) (BindDNCredential client) = None
                 \<and> ldap_CompileFilter D (Filter request) = None
              then [request] else [])"
proof -
  obtain res D1 where g: "getConn client (BindDN client) (BindDNCredential client) D = (res, D1)"
    by (cases "getConn client (BindDN client) (BindDNCredential client) D")
  from getConn_sent[of client "BindDN client" "BindDNCredential client" D] g obtain ops1 where
    o1: "sent D1 = sent D @ ops1" "searchRequests ops1 = []"
        "ldap_CompileFilter D1 = ldap_CompileFilter D" by auto
  from getConn_ok[of client "BindDN client" "BindDNCredential client" D] g have
    ok: "isl res \<longleftrightarrow> \<not> (dial D (Addr client) = None \<and> BindDNCredential client \<noteq> []
                     \<and> simpleBind D (BindDN client) (BindDNCredential client) = None)" by simp
  show ?thesis
  proof (cases res)
    case (Inl err)
    with g o1 ok show ?thesis
      by (intro exI[of _ ops1]) (auto simp: sendRequest_def getConnWithAdmin_def)
  next
    case (Inr conn)
    show ?thesis
    proof (cases "ldap_CompileFilter D (Filter request)")
      case None
      with Inr g o1 ok show ?thesis
        by (intro exI[of _ "ops1 @ [OpSearch request, OpClose]"])
           (auto simp: sendRequest_def getConnWithAdmin_def Let_def send_simps
                       searchRequests_append)
    next
      case (Some err)
      with Inr g o1 ok show ?thesis
        by (intro exI[of _ "ops1 @ [OpClose]"])
           (auto simp: sendRequest_def getConnWithAdmin_def Let_def send_simps
                       searchRequests_append)
    qed
  qed
qed

lemma sendRequest_refused:
  "ldap_CompileFilter D (Filter request) \<noteq> None \<Longrightarrow> isl (fst (sendRequest client request D))"
proof -
  obtain res D1 where g: "getConn client (BindDN client) (BindDNCredential client) D = (res, D1)"
    by (cases "getConn client (BindDN client) (BindDNCredential client) D")
  from getConn_sent[of client "BindDN client" "BindDNCredential client" D] g have
    "ldap_CompileFilter D1 = ldap_CompileFilter D" by auto
  moreover assume "ldap_CompileFilter D (Filter request) \<noteq> None"
  ultimately show ?thesis using g
    by (cases res) (auto simp: sendRequest_def getConnWithAdmin_def)
qed

lemma Authenticate_refused:
  assumes "ldap_CompileFilter D (''(cn='' @ username @ '')'') \<noteq> None"
  shows "fst (Authenticate client username password D)
         = Inl (errors_New ''can not find user's DN'')"
proof -
  let ?attrs = "[''cn'', ''gidNumber'', ''memberUid'', ''uid'', ''uidNumber'', ''mail'']"
  let ?req = "buildSearchRequest (SearchBase client) (''(cn='' @ username @ '')'') ?attrs"
  have "Filter ?req = ''(cn='' @ username @ '')''" by (simp add: buildSearchRequest_def)
  with assms have "isl (fst (sendRequest client ?req D))"
    by (intro sendRequest_refused) simp
  then obtain err D1 where "sendRequest client ?req D = (Inl err, D1)"
    by (cases "sendRequest client ?req D"; cases "fst (sendRequest client ?req D)") auto
  then show ?thesis by (simp add: Authenticate_def Let_def)
qed

lemma Authenticate_sent:
  "\<exists>ops. sent (snd (Authenticate client username password D)) = sent D @ ops
         \<and> searchRequests ops
           = (if dial D (Addr client) = None \<and> BindDNCredential client \<noteq> []
                 \<and> simpleBind D (BindDN client) (BindDNCredential client) = None
                 \<and> ldap_CompileFilter D (''(cn='' @ username @ '')'') = None
              then [buildSearchRequest (SearchBase client) (''(cn='' @ username @ '')'')
                      [''cn'', ''gidNumber'', ''memberUid'', ''uid'', ''uidNumber'', ''mail'']]
              else [])"
proof -
  let ?attrs = "[''cn'', ''gidNumber'', ''memberUid'', ''uid'', ''uidNumber'', ''mail'']"
  let ?req = "buildSearchRequest (SearchBase client) (''(cn='' @ username @ '')'') ?attrs"
  have f: "Filter ?req = ''(cn='' @ username @ '')''" by (simp add: buildSearchRequest_def)
  obtain res D1 where s: "sendRequest client ?req D = (res, D1)"
    by (cases "sendRequest client ?req D")
  from sendRequest_sent[of client ?req D] s obtain ops1 where
    o1: "sent D1 = sent D @ ops1"
        "searchRequests ops1
           = (if dial D (Addr client) = None \<and> BindDNCredential client \<noteq> []
                 \<and> simpleBind D (BindDN client) (BindDNCredential client) = None
                 \<and> ldap_CompileFilter D (''(cn='' @ username @ '')'') = None
              then [?req] else [])" unfolding f by auto
  show ?thesis
  proof (cases res)
    case (Inl err)
    with s o1 show ?thesis
      by (intro exI[of _ ops1]) (simp add: Authenticate_def Let_def)
  next
    case (Inr found)
    from bindEntries_sent[of client password ?attrs found D1] obtain ops2 where
      "sent (snd (bindEntries client password ?attrs found D1)) = sent D1 @ ops2"
      "searchRequests ops2 = []" by blast
    with s o1 Inr show ?thesis
      by (intro exI[of _ "ops1 @ ops2"]) (simp add: Authenticate_def Let_def searchRequests_append)
  qed
qed

lemma rfc4515_escape_length:
  "length (rfc4515_escape s)
   = length s + 2 * length (filter (\<lambda>c. c \<in> {CHR ''*'', CHR ''('', CHR '')'', CHR 0x5C, CHR 0x00}) s)"
  by (induction s) (simp_all add: rfc4515_escape_def)

lemma rfc4515_escape_id:
  "rfc4515_escape s = s \<longleftrightarrow> set s \<inter> {CHR ''*'', CHR ''('', CHR '')'', CHR 0x5C, CHR 0x00} = {}"
proof
  assume "rfc4515_escape s = s"
  then have "length (rfc4515_escape s) = length s" by simp
  then have "filter (\<lambda>c. c \<in> {CHR ''*'', CHR ''('', CHR '')'', CHR 0x5C, CHR 0x00}) s = []"
    by (simp add: rfc4515_escape_length)
  then show "set s \<inter> {CHR ''*'', CHR ''('', CHR '')'', CHR 0x5C, CHR 0x00} = {}"
    by (auto simp: filter_empty_conv)
next
  assume "set s \<inter> {CHR ''*'', CHR ''('', CHR '')'', CHR 0x5C, CHR 0x00} = {}"
  then show "rfc4515_escape s = s"
    by (induction s) (auto simp: rfc4515_escape_def)
qed

text \<open>
  Claim C8, as amended. The filter \<open>Authenticate\<close> builds is \<open>(cn=<user>)\<close> with the
  user-supplied name inserted as it is, without any escaping. \<open>Authenticate\<close> sends
  at most one search request, and sends it exactly when the administrator's connection
  and bind succeed and the library compiles that filter; the request sent carries the
  filter unchanged. When the filter does not compile, no search reaches the directory
  and the result is the error \<open>can not find user's DN\<close>. The filter is the RFC 4515
  escaped one exactly when the name contains none of the characters \<open>*\<close>, \<open>(\<close>, \<open>)\<close>,
  backslash and NUL.
\<close>

theorem Authenticate_filter_verbatim:
  "(\<exists>ops. sent (snd (Authenticate client username password D)) = sent D @ ops
         \<and> searchRequests ops
           = (if dial D (Addr client) = None \<and> BindDNCredential client \<noteq> []
                 \<and> simpleBind D (BindDN client) (BindDNCredential client) = None
                 \<and> ldap_CompileFilter D (''(cn='' @ username @ '')'') = None
              then [buildSearchRequest (SearchBase client) (''(cn='' @ username @ '')'')
                      [''cn'', ''gidNumber'', ''memberUid'', ''uid'', ''uidNumber'', ''mail'']]
              else []))
   \<and> (ldap_CompileFilter D (''(cn='' @ username @ '')'') \<noteq> None
      \<longrightarrow> fst (Authenticate client username password D)
          = Inl (errors_New ''can not find user's DN''))
   \<and> Filter (buildSearchRequest (SearchBase client) (''(cn='' @ username @ '')'')
               [''cn'', ''gidNumber'', ''memberUid'', ''uid'', ''uidNumber'', ''mail''])
     = ''(cn='' @ username @ '')''
   \<and> (''(cn='' @ username @ '')'' = ''(cn='' @ rfc4515_escape username @ '')''
      \<longleftrightarrow> set username \<inter> {CHR ''*'', CHR ''('', CHR '')'', CHR 0x5C, CHR 0x00} = {})"
proof -
  have "Filter (buildSearchRequest (SearchBase client) (''(cn='' @ username @ '')'')
               [''cn'', ''gidNumber'', ''memberUid'', ''uid'', ''uidNumber'', ''mail''])
     = ''(cn='' @ username @ '')''"
    by (simp add: buildSearchRequest_def)
  moreover have "''(cn='' @ username @ '')'' = ''(cn='' @ rfc4515_escape username @ '')''
      \<longleftrightarrow> set username \<inter> {CHR ''*'', CHR ''('', CHR '')'', CHR 0x5C, CHR 0x00} = {}"
    using rfc4515_escape_id[of username] by auto
  ultimately show ?thesis
    using Authenticate_sent[of client username password D]
          Authenticate_refused[of D username client password]
    by blast
qed


theorem Authenticate_filter_verbatim_witness:
  "searchRequests (sent (snd (Authenticate sampleClient ''alice'' ''pw-a'' sampleDirectory)))
     = [buildSearchRequest ''ou=people,dc=aiframe,dc=com'' ''(cn=alice)''
          [''cn'', ''gidNumber'', ''memberUid'', ''uid'', ''uidNumber'', ''mail'']]
   \<and> ''(cn=alice)'' = ''(cn='' @ rfc4515_escape ''alice'' @ '')''
   \<and> searchRequests (sent (snd (Authenticate sampleClient ''a)(uid=*'' ''pw-a'' sampleDirectory)))
     = []
   \<and> fst (Authenticate sampleClient ''a)(uid=*'' ''pw-a'' sampleDirectory)
     = Inl (errors_New ''can not find user's DN'')
   \<and> sent (snd (Authenticate sampleClient ''a)(uid=*'' ''pw-a'' sampleDirectory))
     = [OpDialURL ''ldap://localhost:30063'',
        OpSimpleBind ''cn=admin,dc=aiframe,dc=com'' ''secret'', OpClose]"
proof -
  note t1 = Authenticate_filter_verbatim
         [where client = sampleClient and username = "''alice''" and password = "''pw-a''"
            and D = sampleDirectory]
  note t2 = Authenticate_filter_verbatim
         [where client = sampleClient and username = "''a)(uid=*''" and password = "''pw-a''"
            and D = sampleDirectory]
  have c1: "ldap_CompileFilter sampleDirectory (''(cn='' @ ''alice'' @ '')'') = None"
    by (simp add: sampleDirectory_def sampleCompileFilter_def)
  have c2: "ldap_CompileFilter sampleDirectory (''(cn='' @ ''a)(uid=*'' @ '')'') \<noteq> None"
    by (simp add: sampleDirectory_def sampleCompileFilter_def)
  have adm: "dial sampleDirectory (Addr sampleClient) = None"
    "BindDNCredential sampleClient \<noteq> []"
    "simpleBind sampleDirectory (BindDN sampleClient) (BindDNCredential sampleClient) = None"
    "SearchBase sampleClient = ''ou=people,dc=aiframe,dc=com''"
    "sent sampleDirectory = []"
    by (simp_all add: sampleDirectory_def sampleClient_def)
  from t1 obtain ops where
    "sent (snd (Authenticate sampleClient ''alice'' ''pw-a'' sampleDirectory))
       = sent sampleDirectory @ ops"
    "searchRequests ops
       = (if dial sampleDirectory (Addr sampleClient) = None
             \<and> BindDNCredential sampleClient \<noteq> []
             \<and> simpleBind sampleDirectory (BindDN sampleClient) (BindDNCredential sampleClient)
               = None
             \<and> ldap_CompileFilter sampleDirectory (''(cn='' @ ''alice'' @ '')'') = None
          then [buildSearchRequest (SearchBase sampleClient) (''(cn='' @ ''alice'' @ '')'')
                  [''cn'', ''gidNumber'', ''memberUid'', ''uid'', ''uidNumber'', ''mail'']]
          else [])"
    by blast
  then have a: "searchRequests (sent (snd (Authenticate sampleClient ''alice'' ''pw-a'' sampleDirectory)))
     = [buildSearchRequest ''ou=people,dc=aiframe,dc=com'' ''(cn=alice)''
          [''cn'', ''gidNumber'', ''memberUid'', ''uid'', ''uidNumber'', ''mail'']]"
    using c1 adm by simp
  have b: "''(cn=alice)'' = ''(cn='' @ rfc4515_escape ''alice'' @ '')''"
    by (simp add: rfc4515_escape_def)
  from t2 obtain ops' where
    "sent (snd (Authenticate sampleClient ''a)(uid=*'' ''pw-a'' sampleDirectory))
       = sent sampleDirectory @ ops'"
    "searchRequests ops'
       = (if dial sampleDirectory (Addr sampleClient) = None
             \<and> BindDNCredential sampleClient \<noteq> []
             \<and> simpleBind sampleDirectory (BindDN sampleClient) (BindDNCredential sampleClient)
               = None
             \<and> ldap_CompileFilter sampleDirectory (''(cn='' @ ''a)(uid=*'' @ '')'') = None
          then [buildSearchRequest (SearchBase sampleClient) (''(cn='' @ ''a)(uid=*'' @ '')'')
                  [''cn'', ''gidNumber'', ''memberUid'', ''uid'', ''uidNumber'', ''mail'']]
          else [])"
    by blast
  then have c: "searchRequests (sent (snd (Authenticate sampleClient ''a)(uid=*'' ''pw-a'' sampleDirectory)))
     = []"
    using c2 adm by simp
  from t2 c2 have d: "fst (Authenticate sampleClient ''a)(uid=*'' ''pw-a'' sampleDirectory)
     = Inl (errors_New ''can not find user's DN'')"
    by blast
  have e: "sent (snd (Authenticate sampleClient ''a)(uid=*'' ''pw-a'' sampleDirectory))
     = [OpDialURL ''ldap://localhost:30063'',
        OpSimpleBind ''cn=admin,dc=aiframe,dc=com'' ''secret'', OpClose]"
    by (simp add: Authenticate_def sendRequest_def getConnWithAdmin_def getConn_def send_def
          buildSearchRequest_def sampleDirectory_def sampleClient_def sampleCompileFilter_def
          Let_def)
  from a b c d e show ?thesis by blast
qed

text \<open>
  The claim as stated fails: for the user name \<open>*\<close> the filter compiles and the
  filter sent is \<open>(cn=*)\<close>, which is not the escaped filter and matches every entry,
  so that the login succeeds with the password of any person in the directory.
\<close>

theorem Authenticate_filter_counterexample:
  "searchRequests (sent (snd (Authenticate sampleClient ''*'' ''pw-b'' sampleDirectory)))
     = [buildSearchRequest ''ou=people,dc=aiframe,dc=com'' ''(cn=*)''
          [''cn'', ''gidNumber'', ''memberUid'', ''uid'', ''uidNumber'', ''mail'']]
   \<and> ''(cn=*)'' \<noteq> ''(cn='' @ rfc4515_escape ''*'' @ '')''
   \<and> \<not> isl (fst (Authenticate sampleClient ''*'' ''pw-b'' sampleDirectory))"
  by (simp add: Authenticate_def sendRequest_def getConnWithAdmin_def getConn_def send_def
        buildSearchRequest_def sampleDirectory_def sampleClient_def sampleCompileFilter_def
        rfc4515_escape_def Let_def)

section \<open>Claim about the response\<close>

text \<open>
  Claim C5. For every stored request and every user, \<open>makeAuthnResponse\<close> returns a
  response with \<open>InResponseTo\<close> the request's ID, the issuer made from the IdP's
  entity ID and the status code Success; its assertion has the subject's name ID with
  the user's format and name, the entity ID as name qualifier and the request's issuer
  as SP name qualifier; a bearer subject confirmation with the request's ID and
  assertion consumer URL and \<open>NotOnOrAfter\<close> five minutes after now; and conditions
  with \<open>NotBefore\<close> now, \<open>NotOnOrAfter\<close> five minutes after now and the request's
  issuer as audience. Each function reads the clock for its own \<open>now\<close>: the subject
  confirmation is built by \<open>makeAuthnResponse\<close> from its reading, the first one, the
  conditions by \<open>makeResponse\<close> from its reading, the second one.
\<close>

theorem makeAuthnResponse_postconditions:
  "\<exists>resp assertion subject.
     fst (makeAuthnResponse C i req user wd) = Inr resp
   \<and> StatusResponseType.InResponseTo resp = model_AuthnRequest.ID req
   \<and> StatusResponseType.Issuer resp = Some (saml_NewIssuer (entityID i))
   \<and> StatusResponseType.Status resp
       = Some \<lparr> StatusCode =
                  \<lparr> StatusCode.Value = ''urn:oasis:names:tc:SAML:2.0:status:Success'' \<rparr> \<rparr>
   \<and> Assertion resp = Some assertion
   \<and> Subject assertion = Some subject
   \<and> NameID subject
       = Some \<lparr> NameID.Format = User.Format user,
                NameQualifier = entityID i,
                SPNameQualifier = model_AuthnRequest.Issuer req,
                NameID.Value = User.Name user \<rparr>
   \<and> SubjectConfirmation subject
       = Some \<lparr> Method = ''urn:oasis:names:tc:SAML:2.0:cm:bearer'',
                SubjectConfirmationData =
                  Some \<lparr> Address = net_ParseIP C (User.IP user),
                         SubjectConfirmationData.InResponseTo = model_AuthnRequest.ID req,
                         Recipient = model_AuthnRequest.AssertionConsumerServiceURL req,
                         SubjectConfirmationData.NotOnOrAfter
                           = clock wd (ticks wd) + 5 * time_Minute \<rparr> \<rparr>
   \<and> Conditions assertion
       = Some \<lparr> Conditions.NotOnOrAfter = clock wd (ticks wd + 1) + 5 * time_Minute,
                NotBefore = clock wd (ticks wd + 1),
                AudienceRestriction = Some \<lparr> Audience = model_AuthnRequest.Issuer req \<rparr> \<rparr>"
  by (simp add: makeAuthnResponse_def makeResponse_def time_Now_def saml_NewID_def Let_def
        split_def)

section \<open>Claim about the password login\<close>

lemma url_QueryEscape_message:
  "url_QueryEscape ''invalid login or password. Please try again''
   = ''invalid+login+or+password.+Please+try+again''"
  by (simp add: shouldEscape_def)

lemma passwordLogin_invalid:
  assumes "fst (Cache_Get (TempCache (idp s)) requestID (wld s)) = Inr data"
    and "proto_Unmarshal_AuthnRequest C data = Inr req"
    and "PasswordValidator (idp s) (Values_Get (Form r) ''username'')
           (Values_Get (Form r) ''password'') = Inl e"
  shows "passwordLogin L C A requestID r s
         = (Inl (errors_New ''invalid login or password. Please try again''),
            s\<lparr> wld := snd (Cache_Get (TempCache (idp s)) requestID (wld s)) \<rparr>)"
  using assms
  by (simp add: passwordLogin_def loginWithPasswordForm_def split_def Let_def)

text \<open>
  Claim C7. Let the form parse, the request identifier be cached with a value that
  decodes to an authentication request, and the password validator return an error for
  the given user name and password. Then the password login handler answers a fresh
  response writer with status 302 and the single header \<open>Location\<close>,
  \<open>/idp/static/login.html?requestId=<id>&error=invalid+login+or+password.+Please+try+again\<close>
  (the identifier query-escaped), sets no cookie, writes no body and leaves the user
  cache, and the whole IdP, as they were.
\<close>

theorem invalid_password_redirect:
  assumes "ParseForm r = None"
    and "rw s = newResponseWriter"
    and "fst (Cache_Get (TempCache (idp s)) (Values_Get (Form r) ''requestId'') (wld s)) = Inr data"
    and "proto_Unmarshal_AuthnRequest C data = Inr req"
    and "PasswordValidator (idp s) (Values_Get (Form r) ''username'')
           (Values_Get (Form r) ''password'') = Inl e"
  shows "\<exists>s'. DefaultPasswordLoginHandler L C A r s = (Inr (), s')
          \<and> status (rw s') = Some 302
          \<and> header (rw s')
              = [(''Location'',
                  ''/idp/static/login.html?requestId=''
                  @ url_QueryEscape (Values_Get (Form r) ''requestId'')
                  @ ''&error=invalid+login+or+password.+Please+try+again'')]
          \<and> cookies (rw s') = []
          \<and> body (rw s') = []
          \<and> UserCache (idp s') = UserCache (idp s)
          \<and> idp s' = idp s"
  using passwordLogin_invalid[OF assms(3,4,5), of L A] assms(1,2)
  by (simp add: DefaultPasswordLoginHandler_def Let_def http_Redirect_def Header_Set_def
        WriteHeader_def newResponseWriter_def shouldEscape_def)


theorem invalid_password_redirect_witness:
  "\<exists>s'. DefaultPasswordLoginHandler sampleLibrary sampleCodec sampleSenders sampleLoginPost
          sampleState = (Inr (), s')
        \<and> status (rw s') = Some 302
        \<and> header (rw s')
            = [(''Location'',
                ''/idp/static/login.html?requestId=1234&error=invalid+login+or+password.+Please+try+again'')]
        \<and> cookies (rw s') = []
        \<and> UserCache (idp s') = UserCache sampleIDP"
proof -
  have form: "Values_Get (Form sampleLoginPost) ''requestId'' = ''1234''"
    "Values_Get (Form sampleLoginPost) ''username'' = ''alice''"
    "Values_Get (Form sampleLoginPost) ''password'' = ''wrong''"
    by (simp_all add: sampleLoginPost_def Values_Get_def)
  have h1: "ParseForm sampleLoginPost = None"
    by (simp add: sampleLoginPost_def)
  have h2: "rw sampleState = newResponseWriter"
    by (simp add: sampleState_def)
  have h3: "fst (Cache_Get (TempCache (idp sampleState))
                   (Values_Get (Form sampleLoginPost) ''requestId'') (wld sampleState))
            = Inr ''2134''"
    by (simp add: form Cache_Get_def time_Now_def sampleState_def sampleIDP_def
          sampleWorld_def time_Minute_def)
  have h4: "proto_Unmarshal_AuthnRequest sampleCodec ''2134''
            = Inr (sampleAuthnRequest\<lparr> model_AuthnRequest.ID := ''2134'' \<rparr>)"
    by (simp add: sampleCodec_def)
  have h5: "PasswordValidator (idp sampleState)
              (Values_Get (Form sampleLoginPost) ''username'')
              (Values_Get (Form sampleLoginPost) ''password'')
            = Inl (errors_New ''No Such Object'')"
    by (simp add: form sampleState_def sampleIDP_def)
  from invalid_password_redirect[OF h1 h2 h3 h4 h5, of sampleLibrary sampleSenders]
  obtain s' where
    "DefaultPasswordLoginHandler sampleLibrary sampleCodec sampleSenders sampleLoginPost
       sampleState = (Inr (), s')"
    "status (rw s') = Some 302"
    "header (rw s')
     = [(''Location'',
         ''/idp/static/login.html?requestId='' @ url_QueryEscape ''1234''
         @ ''&error=invalid+login+or+password.+Please+try+again'')]"
    "cookies (rw s') = []"
    "UserCache (idp s') = UserCache (idp sampleState)"
    unfolding form by blast
  then show ?thesis
    by (intro exI[of _ s']) (simp add: shouldEscape_def sampleState_def)
qed

section \<open>Claim about the use of an artifact\<close>

lemma processArtifactResolutionRequest_idp:
  "idp (snd (processArtifactResolutionRequest C r s)) = idp s"
  by (simp add: processArtifactResolutionRequest_def Let_def split_def
           split: sum.splits option.splits prod.splits)

lemma makeAuthnResponse_Inr:
  "\<exists>resp assertion.
     fst (makeAuthnResponse C i req user wd) = Inr resp \<and> Assertion resp = Some assertion"
  by (simp add: makeAuthnResponse_def makeResponse_def time_Now_def saml_NewID_def Let_def
        split_def)

lemma Write_new_status:
  "status (Write b (Write a newResponseWriter)) = Some 200"
  by (simp add: Write_def WriteHeader_def newResponseWriter_def)

lemma sendArtifactResponse_stores:
  "entries (TempCache (idp (snd (sendArtifactResponse L C req user r s))))
     (fst (getArtifact L (entityID (idp s)) (wld s)))
   = Some (case proto_Marshal_ArtifactResponse C \<lparr> User = Some user, Request = Some req \<rparr> of
             Inl err \<Rightarrow> []
           | Inr data \<Rightarrow> data,
           clock (wld s) (ticks (wld s)) + ttl (TempCache (idp s)))"
  by (simp add: sendArtifactResponse_def Cache_Set_def time_Now_def getArtifact_def
        uuid_New_String_def Let_def split_def split: sum.splits option.splits)

lemma processArtifactResolutionRequest_ok:
  assumes dec: "xml_Decode_ArtifactResolveEnvelope C (http_Request.Body r) = Inr env"
    and ent: "entries (TempCache (idp s))
                (Artifact (ArtifactResolve (ArtifactResolveEnvelope.Body env)))
              = Some (data, expiresAt)"
    and unm: "proto_Unmarshal_ArtifactResponse C data
              = Inr \<lparr> User = Some user, Request = Some req \<rparr>"
    and sg: "\<And>a. \<not> isl (signer_CreateSignature (idp s) a)"
    and new: "rw s = newResponseWriter"
    and window: "clock (wld s) (ticks (wld s)) < expiresAt"
  shows "\<exists>s'. processArtifactResolutionRequest C r s = (Inr (), s')
              \<and> status (rw s') = Some 200 \<and> idp s' = idp s
              \<and> wld s' = (wld s)\<lparr> ticks := ticks (wld s) + 4, drawn := drawn (wld s) + 4 \<rparr>"
proof -
  let ?wd1 = "(wld s)\<lparr> ticks := ticks (wld s) + 1 \<rparr>"
  have get: "Cache_Get (TempCache (idp s))
               (Artifact (ArtifactResolve (ArtifactResolveEnvelope.Body env))) (wld s)
             = (Inr data, ?wd1)"
    using ent window by (simp add: Cache_Get_def time_Now_def)
  let ?wd2 = "?wd1\<lparr> ticks := ticks ?wd1 + 1 \<rparr>"
  obtain resp assertion where
    mk: "fst (makeAuthnResponse C (idp s) req user ?wd2) = Inr resp"
        "Assertion resp = Some assertion"
    using makeAuthnResponse_Inr by blast
  have wd3: "snd (makeAuthnResponse C (idp s) req user ?wd2)
             = (wld s)\<lparr> ticks := ticks (wld s) + 4, drawn := drawn (wld s) + 3 \<rparr>"
    by (simp add: makeAuthnResponse_def makeResponse_def time_Now_def saml_NewID_def Let_def
          split_def)
  have mk': "makeAuthnResponse C (idp s) req user ?wd2
             = (Inr resp, (wld s)\<lparr> ticks := ticks (wld s) + 4, drawn := drawn (wld s) + 3 \<rparr>)"
    using mk(1) wd3 by (cases "makeAuthnResponse C (idp s) req user ?wd2") simp
  obtain signature where sig: "signer_CreateSignature (idp s) assertion = Inr signature"
    using sg[of assertion] by (cases "signer_CreateSignature (idp s) assertion") simp_all
  show ?thesis
    using dec get unm mk' mk(2) sig new
    by (simp add: processArtifactResolutionRequest_def Let_def split_def time_Now_def
          saml_NewID_def Write_new_status)
qed


text \<open>
  Claim C9, as amended. The artifact resolution handler only reads the temporary cache:
  it never changes the IdP, whatever the request. \<open>sendArtifactResponse\<close> stores the
  blob under the artifact with the TTL of the cache (lemma
  \<open>sendArtifactResponse_stores\<close>). When a request names a stored artifact whose blob
  decodes, the entry has not expired and the signer signs, the handler answers 200 and
  the entry is still in the cache; a second resolution of the same artifact before the
  expiry reads the same blob and answers 200 again. An entry leaves the cache only by
  expiry.
\<close>

theorem artifact_not_consumed:
  assumes dec: "xml_Decode_ArtifactResolveEnvelope C (http_Request.Body r) = Inr env"
    and art: "artifact = Artifact (ArtifactResolve (ArtifactResolveEnvelope.Body env))"
    and ent: "entries (TempCache (idp s)) artifact = Some (data, expiresAt)"
    and unm: "proto_Unmarshal_ArtifactResponse C data
              = Inr \<lparr> User = Some user, Request = Some req \<rparr>"
    and sg: "\<forall>a. \<not> isl (signer_CreateSignature (idp s) a)"
    and new: "rw s = newResponseWriter"
    and window: "clock (wld s) (ticks (wld s)) < expiresAt"
  shows "idp (snd (processArtifactResolutionRequest C r' s')) = idp s'
       \<and> (\<exists>s1. processArtifactResolutionRequest C r s = (Inr (), s1)
              \<and> status (rw s1) = Some 200
              \<and> idp s1 = idp s
              \<and> wld s1 = (wld s)\<lparr> ticks := ticks (wld s) + 4, drawn := drawn (wld s) + 4 \<rparr>
              \<and> entries (TempCache (idp s1)) artifact = Some (data, expiresAt)
              \<and> (clock (wld s1) (ticks (wld s1)) < expiresAt \<longrightarrow>
                   fst (Cache_Get (TempCache (idp s1)) artifact (wld s1)) = Inr data
                   \<and> (\<exists>s2. processArtifactResolutionRequest C r (s1\<lparr> rw := newResponseWriter \<rparr>)
                               = (Inr (), s2)
                            \<and> status (rw s2) = Some 200
                            \<and> idp s2 = idp s)))"
proof -
  from processArtifactResolutionRequest_ok[OF dec ent[unfolded art] unm _ new window] sg
  obtain s1 where s1: "processArtifactResolutionRequest C r s = (Inr (), s1)"
    "status (rw s1) = Some 200" "idp s1 = idp s"
    "wld s1 = (wld s)\<lparr> ticks := ticks (wld s) + 4, drawn := drawn (wld s) + 4 \<rparr>"
    by blast
  have again: "fst (Cache_Get (TempCache (idp s1)) artifact (wld s1)) = Inr data
             \<and> (\<exists>s2. processArtifactResolutionRequest C r (s1\<lparr> rw := newResponseWriter \<rparr>)
                         = (Inr (), s2)
                      \<and> status (rw s2) = Some 200 \<and> idp s2 = idp s)"
    if w2: "clock (wld s1) (ticks (wld s1)) < expiresAt"
  proof -
    have "fst (Cache_Get (TempCache (idp s1)) artifact (wld s1)) = Inr data"
      using ent w2 s1(3) by (simp add: Cache_Get_def time_Now_def)
    moreover
    have "\<exists>s2. processArtifactResolutionRequest C r (s1\<lparr> rw := newResponseWriter \<rparr>)
                  = (Inr (), s2)
               \<and> status (rw s2) = Some 200
               \<and> idp s2 = idp (s1\<lparr> rw := newResponseWriter \<rparr>)
               \<and> wld s2 = (wld (s1\<lparr> rw := newResponseWriter \<rparr>))
                     \<lparr> ticks := ticks (wld (s1\<lparr> rw := newResponseWriter \<rparr>)) + 4,
                       drawn := drawn (wld (s1\<lparr> rw := newResponseWriter \<rparr>)) + 4 \<rparr>"
      by (rule processArtifactResolutionRequest_ok[OF dec _ unm, where expiresAt = expiresAt])
         (use ent art sg w2 s1(3) in simp_all)
    ultimately show ?thesis using s1(3) by auto
  qed
  have "idp (snd (processArtifactResolutionRequest C r' s')) = idp s'"
    by (rule processArtifactResolutionRequest_idp)
  moreover have "entries (TempCache (idp s1)) artifact = Some (data, expiresAt)"
    using ent s1(3) by simp
  ultimately show ?thesis using s1 again by blast
qed


lemma sampleArtifact_nonempty: "sampleArtifact \<noteq> []"
proof -
  have "length (artifactBytes sampleLibrary (fresh sampleWorld 0) (entityID sampleIDP)) = 44"
    by (subst artifactBytes_eq) (simp_all add: sampleLibrary_def sampleWorld_def)
  then show ?thesis
    by (auto simp: sampleArtifact_def getArtifact_def uuid_New_String_def sampleLibrary_def
          sampleWorld_def)
qed

lemma sampleSent_facts:
  "fst (sendArtifactResponse sampleLibrary sampleCodec sampleAuthnRequest sampleUser
          sampleHTTP sampleState) = Inr ()"
  "entries (TempCache (idp sampleSent)) sampleArtifact = Some (''alice|2134'', 5 * time_Minute)"
  "signer_CreateSignature (idp sampleSent) = signer_CreateSignature sampleIDP"
  "wld sampleSent = sampleWorld\<lparr> ticks := 1, drawn := 1 \<rparr>"
  "status (rw sampleSent) = Some 302"
proof -
  show "fst (sendArtifactResponse sampleLibrary sampleCodec sampleAuthnRequest sampleUser
          sampleHTTP sampleState) = Inr ()"
    by (simp add: sendArtifactResponse_def sampleCodec_def sampleAuthnRequest_def Let_def
          split_def)
  show "entries (TempCache (idp sampleSent)) sampleArtifact = Some (''alice|2134'', 5 * time_Minute)"
    unfolding sampleSent_def sampleArtifact_def
    using sendArtifactResponse_stores
            [of sampleLibrary sampleCodec sampleAuthnRequest sampleUser sampleHTTP sampleState]
    by (simp add: sampleState_def sampleCodec_def sampleUser_def sampleAuthnRequest_def
          sampleIDP_def sampleWorld_def)
  show "signer_CreateSignature (idp sampleSent) = signer_CreateSignature sampleIDP"
    by (simp add: sampleSent_def sendArtifactResponse_def sampleState_def Let_def split_def
          Cache_Set_def split: sum.splits)
  show "wld sampleSent = sampleWorld\<lparr> ticks := 1, drawn := 1 \<rparr>"
    by (simp add: sampleSent_def sendArtifactResponse_def sampleState_def Let_def split_def
          Cache_Set_def time_Now_def getArtifact_def uuid_New_String_def sampleWorld_def
          split: sum.splits)
  show "status (rw sampleSent) = Some 302"
    by (simp add: sampleSent_def sendArtifactResponse_def sampleState_def Let_def split_def
          sampleCodec_def sampleAuthnRequest_def http_Redirect_def WriteHeader_def
          Header_Set_def newResponseWriter_def)
qed

lemma sampleResolve_facts:
  "xml_Decode_ArtifactResolveEnvelope sampleCodec (http_Request.Body sampleResolve)
   = Inr \<lparr> ArtifactResolveEnvelope.Body =
             \<lparr> ArtifactResolve =
               \<lparr> RequestAbstractType.ID = ''_resolve'',
                 RequestAbstractType.Version = ''2.0'',
                 RequestAbstractType.IssueInstant = 0,
                 RequestAbstractType.Issuer = ''https://sp.example/'',
                 RequestAbstractType.Destination = [],
                 Artifact = sampleArtifact \<rparr> \<rparr> \<rparr>"
  "proto_Unmarshal_ArtifactResponse sampleCodec ''alice|2134''
   = Inr \<lparr> User = Some (sampleUser\<lparr> User.Name := ''alice'' \<rparr>),
           Request = Some (sampleAuthnRequest\<lparr> model_AuthnRequest.ID := ''2134'' \<rparr>) \<rparr>"
  "\<not> isl (signer_CreateSignature sampleIDP a)"
  using sampleArtifact_nonempty
  by (simp_all add: sampleResolve_def sampleHTTP_def sampleCodec_def sampleIDP_def)

theorem artifact_not_consumed_witness:
  "\<exists>s1 s2.
     processArtifactResolutionRequest sampleCodec sampleResolve
       (sampleSent\<lparr> rw := newResponseWriter \<rparr>) = (Inr (), s1)
   \<and> status (rw s1) = Some 200
   \<and> entries (TempCache (idp s1)) sampleArtifact = Some (''alice|2134'', 5 * time_Minute)
   \<and> processArtifactResolutionRequest sampleCodec sampleResolve
       (s1\<lparr> rw := newResponseWriter \<rparr>) = (Inr (), s2)
   \<and> status (rw s2) = Some 200"
proof -
  let ?s = "sampleSent\<lparr> rw := newResponseWriter \<rparr>"
  have ent: "entries (TempCache (idp ?s)) sampleArtifact = Some (''alice|2134'', 5 * time_Minute)"
    using sampleSent_facts(2) by simp
  have sg: "\<forall>a. \<not> isl (signer_CreateSignature (idp ?s) a)"
    using sampleSent_facts(3) sampleResolve_facts(3) by simp
  have window: "clock (wld ?s) (ticks (wld ?s)) < 5 * time_Minute"
    by (simp add: sampleSent_facts(4) sampleWorld_def time_Minute_def)
  have new: "rw ?s = newResponseWriter" by simp
  note t = artifact_not_consumed
             [where r' = sampleResolve and s' = sampleState,
              OF sampleResolve_facts(1) _ ent sampleResolve_facts(2) sg new window]
  have art: "sampleArtifact
             = Artifact (ArtifactResolve (ArtifactResolveEnvelope.Body
                 \<lparr> ArtifactResolveEnvelope.Body =
                     \<lparr> ArtifactResolve =
                       \<lparr> RequestAbstractType.ID = ''_resolve'',
                         RequestAbstractType.Version = ''2.0'',
                         RequestAbstractType.IssueInstant = 0,
                         RequestAbstractType.Issuer = ''https://sp.example/'',
                         RequestAbstractType.Destination = [],
                         Artifact = sampleArtifact \<rparr> \<rparr> \<rparr>))"
    by simp
  from t[OF art] obtain s1 where s1:
    "processArtifactResolutionRequest sampleCodec sampleResolve ?s = (Inr (), s1)"
    "status (rw s1) = Some 200"
    "wld s1 = (wld ?s)\<lparr> ticks := ticks (wld ?s) + 4, drawn := drawn (wld ?s) + 4 \<rparr>"
    "entries (TempCache (idp s1)) sampleArtifact = Some (''alice|2134'', 5 * time_Minute)"
    "clock (wld s1) (ticks (wld s1)) < 5 * time_Minute \<longrightarrow>
       fst (Cache_Get (TempCache (idp s1)) sampleArtifact (wld s1)) = Inr ''alice|2134''
       \<and> (\<exists>s2. processArtifactResolutionRequest sampleCodec sampleResolve
                (s1\<lparr> rw := newResponseWriter \<rparr>) = (Inr (), s2)
             \<and> status (rw s2) = Some 200 \<and> idp s2 = idp ?s)"
    by blast
  have "clock (wld s1) (ticks (wld s1)) < 5 * time_Minute"
    by (simp add: s1(3) sampleSent_facts(4) sampleWorld_def time_Minute_def)
  with s1(5) obtain s2 where
    "processArtifactResolutionRequest sampleCodec sampleResolve
       (s1\<lparr> rw := newResponseWriter \<rparr>) = (Inr (), s2)"
    "status (rw s2) = Some 200"
    by blast
  with s1 show ?thesis by blast
qed


text \<open>
  The claim as stated fails: after the sample artifact has been stored and resolved
  once, the cache still returns its blob, and a second \<open>ArtifactResolve\<close> with the
  same artifact is answered with status 200 like the first.
\<close>

theorem artifact_single_use_counterexample:
  "\<exists>s1 s2.
     fst (sendArtifactResponse sampleLibrary sampleCodec sampleAuthnRequest sampleUser
            sampleHTTP sampleState) = Inr ()
   \<and> entries (TempCache (idp sampleSent)) sampleArtifact
       = Some (''alice|2134'', 5 * time_Minute)
   \<and> processArtifactResolutionRequest sampleCodec sampleResolve
       (sampleSent\<lparr> rw := newResponseWriter \<rparr>) = (Inr (), s1)
   \<and> status (rw s1) = Some 200
   \<and> fst (Cache_Get (TempCache (idp s1)) sampleArtifact (wld s1)) = Inr ''alice|2134''
   \<and> processArtifactResolutionRequest sampleCodec sampleResolve
       (s1\<lparr> rw := newResponseWriter \<rparr>) = (Inr (), s2)
   \<and> status (rw s2) = Some 200"
proof -
  let ?s = "sampleSent\<lparr> rw := newResponseWriter \<rparr>"
  let ?env = "\<lparr> ArtifactResolveEnvelope.Body =
                 \<lparr> ArtifactResolve =
                   \<lparr> RequestAbstractType.ID = ''_resolve'',
                     RequestAbstractType.Version = ''2.0'',
                     RequestAbstractType.IssueInstant = 0,
                     RequestAbstractType.Issuer = ''https://sp.example/'',
                     RequestAbstractType.Destination = [],
                     Artifact = sampleArtifact \<rparr> \<rparr> \<rparr>"
  have ent: "entries (TempCache (idp ?s))
               (Artifact (ArtifactResolve (ArtifactResolveEnvelope.Body ?env)))
             = Some (''alice|2134'', 5 * time_Minute)"
    using sampleSent_facts(2) by simp
  have sg: "\<not> isl (signer_CreateSignature (idp ?s) a)" for a
    using sampleSent_facts(3) sampleResolve_facts(3) by simp
  have window: "clock (wld ?s) (ticks (wld ?s)) < 5 * time_Minute"
    by (simp add: sampleSent_facts(4) sampleWorld_def time_Minute_def)
  from processArtifactResolutionRequest_ok
         [OF sampleResolve_facts(1) ent sampleResolve_facts(2) sg _ window]
  obtain s1 where s1:
    "processArtifactResolutionRequest sampleCodec sampleResolve ?s = (Inr (), s1)"
    "status (rw s1) = Some 200" "idp s1 = idp ?s"
    "wld s1 = (wld ?s)\<lparr> ticks := ticks (wld ?s) + 4, drawn := drawn (wld ?s) + 4 \<rparr>"
    by auto
  let ?s1 = "s1\<lparr> rw := newResponseWriter \<rparr>"
  have ent1: "entries (TempCache (idp ?s1))
                (Artifact (ArtifactResolve (ArtifactResolveEnvelope.Body ?env)))
              = Some (''alice|2134'', 5 * time_Minute)"
    using ent s1(3) by simp
  have sg1: "\<not> isl (signer_CreateSignature (idp ?s1) a)" for a
    using sg s1(3) by simp
  have window1: "clock (wld ?s1) (ticks (wld ?s1)) < 5 * time_Minute"
    by (simp add: s1(4) sampleSent_facts(4) sampleWorld_def time_Minute_def)
  from processArtifactResolutionRequest_ok
         [OF sampleResolve_facts(1) ent1 sampleResolve_facts(2) sg1 _ window1]
  obtain s2 where s2:
    "processArtifactResolutionRequest sampleCodec sampleResolve ?s1 = (Inr (), s2)"
    "status (rw s2) = Some 200"
    by auto
  have get: "fst (Cache_Get (TempCache (idp s1)) sampleArtifact (wld s1)) = Inr ''alice|2134''"
    using ent1 window1 by (simp add: Cache_Get_def time_Now_def)
  from sampleSent_facts(1,2) s1(1,2) get s2 show ?thesis by blast
qed

end
